theory Spec2Isabelle
  imports Complex_Main "HOL-Library.Sublist"
begin

section \<open>JavaScript values and strings\<close>

text \<open>
  A JavaScript string is modelled as a \<^typ>\<open>string\<close>: the list of the bytes of its UTF-8
  encoding. All delimiters the code looks at are ASCII, so searching, slicing and
  concatenating act on the bytes as they act on the UTF-16 code units of the source.
  A string with a lone surrogate has no UTF-8 encoding and is outside the model.

  An optional argument is absent (\<open>undefined\<close>), \<open>null\<close>, or a value.
\<close>

datatype 'a js_opt = Undefined | Null | Val 'a

datatype js_error = TypeError | URIError

text \<open>The JavaScript test \<^verbatim>\<open>x != null\<close>: false for \<open>undefined\<close> and for \<open>null\<close>.\<close>

fun not_null :: "'a js_opt \<Rightarrow> bool" where
  "not_null Undefined = False"
| "not_null Null = False"
| "not_null (Val v) = True"

text \<open>
  Where the code tests an argument with \<^verbatim>\<open>!= null\<close> and \<^verbatim>\<open>typeof\<close>, the argument is a
  JavaScript value of any kind; objects and functions are known by identity.
\<close>

datatype js_value = JSUndefined | JSNull | JSString string | JSObject nat | JSFunction nat

fun typeof :: "js_value \<Rightarrow> string" where
  "typeof JSUndefined = ''undefined''"
| "typeof JSNull = ''object''"
| "typeof (JSString s) = ''string''"
| "typeof (JSObject r) = ''object''"
| "typeof (JSFunction f) = ''function''"

fun nullish :: "js_value \<Rightarrow> bool" where
  "nullish JSUndefined = True"
| "nullish JSNull = True"
| "nullish v = False"

subsection \<open>Numbers\<close>

text \<open>
  A JavaScript number is a double: a finite value, an infinity or \<^verbatim>\<open>NaN\<close>. A finite
  number is kept by its exact value, a rational, and the arithmetic on numbers below is
  the exact one: the rounding of a double operation is not modelled. (For a clock, a
  whole number of seconds and a sum within the range of a \<^verbatim>\<open>Date\<close>, the doubles round
  nothing away: the product by 1000 and the sum are whole numbers that a double holds
  exactly, and the quotient by 1000 is rounded by less than \<open>1/2000\<close>, which leaves its
  floor as it is. For a fraction of a second the double product can differ from the exact
  one in its last bit.) Zero and \<^verbatim>\<open>NaN\<close> are falsy, as are \<open>undefined\<close> and \<open>null\<close>.
\<close>

datatype js_number = Finite rat | PlusInfinity | MinusInfinity | NaN

fun falsy :: "js_number js_opt \<Rightarrow> bool" where
  "falsy Undefined = True"
| "falsy Null = True"
| "falsy (Val (Finite q)) = (q = 0)"
| "falsy (Val NaN) = True"
| "falsy (Val PlusInfinity) = False"
| "falsy (Val MinusInfinity) = False"

subsection \<open>encodeURIComponent\<close>

definition hexDigit :: "nat \<Rightarrow> char" where
  "hexDigit n = ''0123456789ABCDEF'' ! n"

definition isAlnum :: "char \<Rightarrow> bool" where
  "isAlnum c = (let n = (of_char c :: nat) in
     (48 \<le> n \<and> n \<le> 57) \<or> (65 \<le> n \<and> n \<le> 90) \<or> (97 \<le> n \<and> n \<le> 122))"

text \<open>
  The characters \<^verbatim>\<open>encodeURIComponent\<close> leaves alone: letters, digits and
  \<^verbatim>\<open>- _ . ! ~ * ' ( )\<close>. Every other byte of the UTF-8 encoding becomes
  \<^verbatim>\<open>%XX\<close> with upper-case hexadecimal digits.
\<close>

definition uriUnescaped :: "char \<Rightarrow> bool" where
  "uriUnescaped c = (isAlnum c \<or> c \<in> set ''-_.!~*()'' \<or> c = CHR 0x27)"

definition pctEncode :: "char \<Rightarrow> string" where
  "pctEncode c = [CHR ''%'', hexDigit (of_char c div 16), hexDigit (of_char c mod 16)]"

definition encodeURIComponent :: "string \<Rightarrow> string" where
  "encodeURIComponent s = concat (map (\<lambda>c. if uriUnescaped c then [c] else pctEncode c) s)"

section \<open>URI builder\<close>

text \<open>\<^verbatim>\<open>return 'wss://' + serviceBusNamespace + ':443/$hc/' + path;\<close>\<close>

definition createRelayBaseUri :: "string \<Rightarrow> string \<Rightarrow> string" where
  "createRelayBaseUri serviceBusNamespace path =
     ''wss://'' @ serviceBusNamespace @ '':443/$hc/'' @ path"

text \<open>
  \<^verbatim>\<open>uri.indexOf('?') == -1\<close> holds exactly when no character of \<open>uri\<close> is a question mark.
\<close>

definition createRelaySendUri ::
  "string \<Rightarrow> string \<Rightarrow> string js_opt \<Rightarrow> string js_opt \<Rightarrow> string" where
  "createRelaySendUri serviceBusNamespace path token id' =
     (let uri = createRelayBaseUri serviceBusNamespace path;
          uri = uri @ (if CHR ''?'' \<notin> set uri then ''?'' else ''&'') @ ''sb-hc-action=connect'';
          uri = (case token of Val t \<Rightarrow> uri @ ''&sb-hc-token='' @ encodeURIComponent t | _ \<Rightarrow> uri);
          uri = (case id' of Val i \<Rightarrow> uri @ ''&sb-hc-id='' @ encodeURIComponent i | _ \<Rightarrow> uri)
      in uri)"

definition createRelayListenUri ::
  "string \<Rightarrow> string \<Rightarrow> string js_opt \<Rightarrow> string js_opt \<Rightarrow> string" where
  "createRelayListenUri serviceBusNamespace path token id' =
     (let uri = createRelayBaseUri serviceBusNamespace path;
          uri = uri @ (if CHR ''?'' \<notin> set uri then ''?'' else ''&'') @ ''sb-hc-action=listen'';
          uri = (case token of Val t \<Rightarrow> uri @ ''&sb-hc-token='' @ encodeURIComponent t | _ \<Rightarrow> uri);
          uri = (case id' of Val i \<Rightarrow> uri @ ''&sb-hc-id='' @ encodeURIComponent i | _ \<Rightarrow> uri)
      in uri)"

section \<open>The \<^verbatim>\<open>url\<close> module\<close>

text \<open>
  \<^verbatim>\<open>url.parse\<close> and \<^verbatim>\<open>url.format\<close> are Node's legacy URL API. The model follows
  the algorithm of \<^verbatim>\<open>lib/url.js\<close> step by step, on the fields that \<^verbatim>\<open>url.format\<close>
  reads: \<open>null\<close> is \<open>None\<close>, and \<open>x || ''\<close> is \<open>orEmpty\<close>. The fields \<open>query\<close>,
  \<open>path\<close> and \<open>href\<close> are not kept: the code under study never reads them, and
  \<^verbatim>\<open>url.format\<close> reads \<open>query\<close> only when it is an object, which \<^verbatim>\<open>url.parse(uri)\<close>
  never produces. Lower-casing and the whitespace tests are those of ASCII; the
  conversion of a non-ASCII host name to Punycode is left out, and so is the
  \<open>ERR_INVALID_URL\<close> that later releases of Node raise for a host name with a forbidden
  character. The protocols that always take \<^verbatim>\<open>//\<close> include \<^verbatim>\<open>ws\<close> and \<^verbatim>\<open>wss\<close>, as in
  current releases.
\<close>

record urlObject =
  protocol :: "string option"
  slashes :: bool
  auth :: "string option"
  host :: "string option"
  port :: "string option"
  hostname :: "string option"
  hash :: "string option"
  search :: "string option"
  pathname :: "string option"

definition orEmpty :: "string option \<Rightarrow> string" where
  "orEmpty x = (case x of None \<Rightarrow> [] | Some s \<Rightarrow> s)"

definition toLower :: "char \<Rightarrow> char" where
  "toLower c =
     (case map_of (zip ''ABCDEFGHIJKLMNOPQRSTUVWXYZ'' ''abcdefghijklmnopqrstuvwxyz'') c of
        None \<Rightarrow> c
      | Some l \<Rightarrow> l)"

definition isDigit :: "char \<Rightarrow> bool" where
  "isDigit c = (let n = (of_char c :: nat) in 48 \<le> n \<and> n \<le> 57)"

subsection \<open>decodeURIComponent\<close>

text \<open>
  \<^verbatim>\<open>url.parse\<close> passes the user-info part through \<^verbatim>\<open>decodeURIComponent\<close>, which
  raises \<open>URIError\<close> on a truncated or non-hexadecimal escape and on escapes that do
  not spell a UTF-8 encoded code point.
\<close>

definition hexVal :: "char \<Rightarrow> nat option" where
  "hexVal c = (let n = (of_char c :: nat) in
     if 48 \<le> n \<and> n \<le> 57 then Some (n - 48)
     else if 65 \<le> n \<and> n \<le> 70 then Some (n - 55)
     else if 97 \<le> n \<and> n \<le> 102 then Some (n - 87)
     else None)"

datatype uri_token = Lit char | Octet nat

fun uriTokens :: "string \<Rightarrow> uri_token list option" where
  "uriTokens [] = Some []"
| "uriTokens (c # cs) =
     (if c = CHR ''%'' then
        (case cs of
           a # b # r \<Rightarrow>
             (case (hexVal a, hexVal b) of
                (Some x, Some y) \<Rightarrow> map_option ((#) (Octet (16 * x + y))) (uriTokens r)
              | _ \<Rightarrow> None)
         | _ \<Rightarrow> None)
      else map_option ((#) (Lit c)) (uriTokens cs))"

fun continuation :: "uri_token \<Rightarrow> bool" where
  "continuation (Octet b) = (128 \<le> b \<and> b < 192)"
| "continuation (Lit c) = False"

fun octetOf :: "uri_token \<Rightarrow> nat" where
  "octetOf (Octet b) = b"
| "octetOf (Lit c) = of_char c"

definition codePoint :: "nat \<Rightarrow> nat list \<Rightarrow> nat" where
  "codePoint lead conts = foldl (\<lambda>acc b. acc * 64 + (b - 128)) lead conts"

definition validCodePoint :: "nat \<Rightarrow> nat \<Rightarrow> bool" where
  "validCodePoint n cp =
     (if n = 2 then 128 \<le> cp
      else if n = 3 then 2048 \<le> cp \<and> \<not> (55296 \<le> cp \<and> cp \<le> 57343)
      else 65536 \<le> cp \<and> cp \<le> 1114111)"

definition utf8Length :: "nat \<Rightarrow> nat" where
  "utf8Length b = (if b < 192 then 1 else if b < 224 then 2 else if b < 240 then 3
                  else if b < 248 then 4 else 5)"

text \<open>
  An octet with the top bit set starts a sequence of \<open>utf8Length b\<close> octets. The others
  must be escapes too, each of the form \<open>10xxxxxx\<close>, and together they must encode a code
  point that is neither overlong nor a surrogate nor beyond U+10FFFF.
\<close>

definition utf8Sequence :: "nat \<Rightarrow> uri_token list \<Rightarrow> string option" where
  "utf8Sequence b r =
     (let n = utf8Length b;
          conts = take (n - 1) r
      in if n = 1 \<or> 4 < n \<or> length conts < n - 1 \<or> \<not> list_all continuation conts
            \<or> \<not> validCodePoint n (codePoint (b mod 2 ^ (7 - n)) (map octetOf conts))
         then None
         else Some (map char_of (b # map octetOf conts)))"

fun utf8Octets :: "uri_token list \<Rightarrow> string option" where
  "utf8Octets [] = Some []"
| "utf8Octets (Lit c # r) = map_option ((#) c) (utf8Octets r)"
| "utf8Octets (Octet b # r) =
     (if b < 128 then map_option ((#) (char_of b)) (utf8Octets r)
      else
        (case utf8Sequence b r of
           None \<Rightarrow> None
         | Some bytes \<Rightarrow> map_option ((@) bytes) (utf8Octets (drop (utf8Length b - 1) r))))"

definition decodeURIComponent :: "string \<Rightarrow> js_error + string" where
  "decodeURIComponent s =
     (case uriTokens s of
        None \<Rightarrow> Inl URIError
      | Some ts \<Rightarrow> (case utf8Octets ts of None \<Rightarrow> Inl URIError | Some r \<Rightarrow> Inr r))"

subsection \<open>url.parse\<close>

text \<open>
  Leading and trailing characters below code 33 are trimmed, and a backslash before the
  first \<^verbatim>\<open>?\<close> or \<^verbatim>\<open>#\<close> is read as a slash.
\<close>

definition isWs :: "char \<Rightarrow> bool" where
  "isWs c = ((of_char c :: nat) < 33)"

definition trimWs :: "string \<Rightarrow> string" where
  "trimWs s = rev (dropWhile isWs (rev (dropWhile isWs s)))"

fun convertBackslashes :: "string \<Rightarrow> string" where
  "convertBackslashes [] = []"
| "convertBackslashes (c # cs) =
     (if c = CHR ''?'' \<or> c = CHR ''#'' then c # cs
      else (if c = CHR 0x5C then CHR ''/'' else c) # convertBackslashes cs)"

definition hasAt :: "string \<Rightarrow> bool" where
  "hasAt s = (CHR ''@'' \<in> set (takeWhile (\<lambda>c. c \<noteq> CHR ''?'' \<and> c \<noteq> CHR ''#'') s))"

definition hasHash :: "string \<Rightarrow> bool" where
  "hasHash s = (CHR ''#'' \<in> set s)"

text \<open>
  The fast path: \<^verbatim>\<open>/^(\/\/?(?!\/)[^?\s]*)(\?[^\s]*)?$/\<close> matches a string that starts
  with a slash, does not start with three slashes, and holds no whitespace.
\<close>

definition isSpace :: "char \<Rightarrow> bool" where
  "isSpace c = (let n = (of_char c :: nat) in (9 \<le> n \<and> n \<le> 13) \<or> n = 32)"

definition simplePath :: "string \<Rightarrow> bool" where
  "simplePath rest =
     (prefix ''/'' rest \<and> \<not> prefix ''///'' rest \<and> \<not> list_ex isSpace rest)"

text \<open>\<^verbatim>\<open>/^[a-z0-9.+-]+:/i\<close>: the matched text, colon included.\<close>

definition isProtocolChar :: "char \<Rightarrow> bool" where
  "isProtocolChar c = (isAlnum c \<or> c \<in> set ''.+-'')"

definition matchProtocol :: "string \<Rightarrow> string option" where
  "matchProtocol rest =
     (let p = takeWhile isProtocolChar rest
      in if p \<noteq> [] \<and> prefix '':'' (drop (length p) rest) then Some (p @ '':'') else None)"

text \<open>\<^verbatim>\<open>/^\/\/[^@/]+@[^@/]+/\<close>\<close>

definition hostPattern :: "string \<Rightarrow> bool" where
  "hostPattern rest =
     (prefix ''//'' rest \<and>
      (let r = drop 2 rest;
           u = takeWhile (\<lambda>c. c \<noteq> CHR ''@'' \<and> c \<noteq> CHR ''/'') r;
           v = drop (length u) r
       in u \<noteq> [] \<and> prefix ''@'' v \<and>
          takeWhile (\<lambda>c. c \<noteq> CHR ''@'' \<and> c \<noteq> CHR ''/'') (drop 1 v) \<noteq> []))"

definition hostlessProtocol :: "string \<Rightarrow> bool" where
  "hostlessProtocol p = (p \<in> set [''javascript'', ''javascript:''])"

definition unsafeProtocol :: "string \<Rightarrow> bool" where
  "unsafeProtocol p = (p \<in> set [''javascript'', ''javascript:''])"

definition slashedProtocol :: "string \<Rightarrow> bool" where
  "slashedProtocol p =
     (p \<in> set [''http'', ''http:'', ''https'', ''https:'', ''ftp'', ''ftp:'', ''gopher'',
                ''gopher:'', ''file'', ''file:'', ''ws'', ''ws:'', ''wss'', ''wss:''])"

text \<open>
  The scan for the end of the host: characters that a host name never holds mark
  \<open>nonHost\<close>, the first of \<^verbatim>\<open># / ?\<close> ends the scan, and an \<^verbatim>\<open>@\<close> moves
  \<open>atSign\<close> and clears \<open>nonHost\<close>.
\<close>

definition nonHostChar :: "char \<Rightarrow> bool" where
  "nonHostChar c =
     (c \<in> set [CHR 0x09, CHR 0x0A, CHR 0x0D, CHR 0x20, CHR 0x22, CHR ''%'', CHR 0x27,
                CHR '';'', CHR ''<'', CHR ''>'', CHR 0x5C, CHR ''^'', CHR 0x60, CHR ''{'',
                CHR ''|'', CHR ''}''])"

fun hostScan :: "string \<Rightarrow> nat \<Rightarrow> nat option \<Rightarrow> nat option \<Rightarrow> nat option \<times> nat option" where
  "hostScan [] i atSign nonHost = (atSign, nonHost)"
| "hostScan (c # cs) i atSign nonHost =
     (if nonHostChar c then
        hostScan cs (Suc i) atSign (if nonHost = None then Some i else nonHost)
      else if c = CHR ''#'' \<or> c = CHR ''/'' \<or> c = CHR ''?'' then
        (atSign, if nonHost = None then Some i else nonHost)
      else if c = CHR ''@'' then hostScan cs (Suc i) (Some i) None
      else hostScan cs (Suc i) atSign nonHost)"

text \<open>\<^verbatim>\<open>parseHost\<close>: \<^verbatim>\<open>/:[0-9]*$/\<close> splits the port off; the results are \<open>port\<close> and \<open>hostname\<close>.\<close>

definition parseHost :: "string \<Rightarrow> string option \<times> string option" where
  "parseHost h =
     (let ds = takeWhile isDigit (rev h);
          r = drop (length ds) (rev h)
      in if prefix '':'' r then
           (if ds = [] then None else Some (rev ds),
            if tl r = [] then None else Some (rev (tl r)))
         else (None, if h = [] then None else Some h))"

definition isIpv6Hostname :: "string \<Rightarrow> bool" where
  "isIpv6Hostname h = (h \<noteq> [] \<and> hd h = CHR ''['' \<and> last h = CHR '']'')"

definition validHostChar :: "char \<Rightarrow> bool" where
  "validHostChar c = (c \<notin> set [CHR ''/'', CHR 0x5C, CHR ''#'', CHR ''?'', CHR '':''])"

text \<open>The characters that \<^verbatim>\<open>url.parse\<close> always escapes in what follows the host.\<close>

definition autoEscapeChar :: "char \<Rightarrow> bool" where
  "autoEscapeChar c =
     (c \<in> set [CHR 0x09, CHR 0x0A, CHR 0x0D, CHR 0x20, CHR 0x22, CHR 0x27, CHR ''<'',
                CHR ''>'', CHR 0x5C, CHR ''^'', CHR 0x60, CHR ''{'', CHR ''|'', CHR ''}''])"

definition autoEscapeStr :: "string \<Rightarrow> string" where
  "autoEscapeStr rest = concat (map (\<lambda>c. if autoEscapeChar c then pctEncode c else [c]) rest)"

text \<open>
  What follows the host is cut at the first \<^verbatim>\<open>#\<close> into the hash, and before it at
  the first \<^verbatim>\<open>?\<close> into the search; a non-empty remainder is the path name.
\<close>

definition hashOf :: "string \<Rightarrow> string option" where
  "hashOf rest =
     (if CHR ''#'' \<in> set rest then Some (dropWhile (\<lambda>c. c \<noteq> CHR ''#'') rest) else None)"

definition searchOf :: "string \<Rightarrow> string option" where
  "searchOf rest =
     (let r = takeWhile (\<lambda>c. c \<noteq> CHR ''#'') rest
      in if CHR ''?'' \<in> set r then Some (dropWhile (\<lambda>c. c \<noteq> CHR ''?'') r) else None)"

definition pathnameOf :: "string \<Rightarrow> string option" where
  "pathnameOf rest =
     (let p = takeWhile (\<lambda>c. c \<noteq> CHR ''?'' \<and> c \<noteq> CHR ''#'') rest
      in if p = [] then None else Some p)"

definition parseTail ::
  "string option \<Rightarrow> bool \<Rightarrow> string option \<Rightarrow> string option \<Rightarrow> string option \<Rightarrow>
   string option \<Rightarrow> string \<Rightarrow> urlObject" where
  "parseTail proto sl au ho po hn rest0 =
     (let rest = (if unsafeProtocol (orEmpty proto) then rest0 else autoEscapeStr rest0);
          pn = pathnameOf rest;
          pn = (if slashedProtocol (orEmpty proto) \<and> orEmpty hn \<noteq> [] \<and> orEmpty pn = []
                then Some ''/'' else pn)
      in \<lparr>protocol = proto, slashes = sl, auth = au, host = ho, port = po, hostname = hn,
          hash = hashOf rest, search = searchOf rest, pathname = pn\<rparr>)"

text \<open>The branch of \<^verbatim>\<open>url.parse\<close> that reads a host out of \<open>rest\<close>.\<close>

definition parseAuthority ::
  "string option \<Rightarrow> bool \<Rightarrow> string \<Rightarrow> js_error + urlObject" where
  "parseAuthority proto sl rest =
     (case hostScan rest 0 None None of (atSign, nonHost) \<Rightarrow>
       (case (case atSign of None \<Rightarrow> Inr None
              | Some a \<Rightarrow> map_sum (\<lambda>e. e) Some (decodeURIComponent (take a rest))) of
          Inl e \<Rightarrow> Inl e
        | Inr au \<Rightarrow>
           (let start = (case atSign of None \<Rightarrow> 0 | Some a \<Rightarrow> Suc a);
                h = (case nonHost of None \<Rightarrow> drop start rest
                     | Some n \<Rightarrow> take (n - start) (drop start rest));
                rest = (case nonHost of None \<Rightarrow> [] | Some n \<Rightarrow> drop n rest);
                po = fst (parseHost h);
                hn = orEmpty (snd (parseHost h));
                ipv6Hostname = isIpv6Hostname hn;
                rest = (if \<not> ipv6Hostname \<and> \<not> list_all validHostChar hn
                        then ''/'' @ dropWhile validHostChar hn @ rest else rest);
                hn = (if ipv6Hostname then hn else takeWhile validHostChar hn);
                hn = (if 255 < length hn then [] else map toLower hn);
                ho = hn @ (case po of None \<Rightarrow> [] | Some p \<Rightarrow> '':'' @ p);
                rest = (if ipv6Hostname \<and> \<not> prefix ''/'' rest then ''/'' @ rest else rest);
                hn = (if ipv6Hostname then butlast (tl hn) else hn)
            in Inr (parseTail proto sl au (Some ho) po (Some hn) rest))))"

definition url_parse :: "string \<Rightarrow> js_error + urlObject" where
  "url_parse url =
     (let rest = convertBackslashes (trimWs url)
      in if \<not> hasHash rest \<and> \<not> hasAt rest \<and> simplePath rest then
           Inr \<lparr>protocol = None, slashes = False, auth = None, host = None, port = None,
                hostname = None, hash = None, search = searchOf rest,
                pathname = Some (takeWhile (\<lambda>c. c \<noteq> CHR ''?'') rest)\<rparr>
         else
           (let proto = matchProtocol rest;
                lowerProto = map_option (map toLower) proto;
                rest = drop (length (orEmpty proto)) rest;
                slashes0 = ((proto \<noteq> None \<or> hostPattern rest) \<and> prefix ''//'' rest);
                sl = (slashes0 \<and> \<not> (proto \<noteq> None \<and> hostlessProtocol (orEmpty lowerProto)));
                rest = (if sl then drop 2 rest else rest)
            in if \<not> hostlessProtocol (orEmpty lowerProto) \<and>
                  (slashes0 \<or> (proto \<noteq> None \<and> \<not> slashedProtocol (orEmpty proto)))
               then parseAuthority lowerProto sl rest
               else Inr (parseTail lowerProto sl None None None None rest)))"

subsection \<open>url.format\<close>

text \<open>In the user-info part every byte is escaped but letters, digits and \<^verbatim>\<open>! ' ( ) * - . : _ ~\<close>.\<close>

definition encodeAuth :: "string \<Rightarrow> string" where
  "encodeAuth s =
     concat (map (\<lambda>c. if uriUnescaped c \<or> c = CHR '':'' then [c] else pctEncode c) s)"

definition escapePathname :: "string \<Rightarrow> string" where
  "escapePathname p =
     concat (map (\<lambda>c. if c = CHR ''#'' then ''%23'' else if c = CHR ''?'' then ''%3F'' else [c]) p)"

definition escapeHash :: "string \<Rightarrow> string" where
  "escapeHash s = concat (map (\<lambda>c. if c = CHR ''#'' then ''%23'' else [c]) s)"

definition url_format :: "urlObject \<Rightarrow> string" where
  "url_format u =
     (let au = orEmpty (auth u);
          au = (if au \<noteq> [] then encodeAuth au @ ''@'' else au);
          proto = orEmpty (protocol u);
          pn = orEmpty (pathname u);
          hs = orEmpty (hash u);
          ho = (if orEmpty (host u) \<noteq> [] then au @ orEmpty (host u)
                else if orEmpty (hostname u) \<noteq> [] then
                  au @ (if CHR '':'' \<in> set (orEmpty (hostname u)) \<and>
                           \<not> isIpv6Hostname (orEmpty (hostname u))
                        then ''['' @ orEmpty (hostname u) @ '']'' else orEmpty (hostname u))
                     @ (if orEmpty (port u) \<noteq> [] then '':'' @ orEmpty (port u) else [])
                else []);
          sr = orEmpty (search u);
          proto = (if proto \<noteq> [] \<and> last proto \<noteq> CHR '':'' then proto @ '':'' else proto);
          pn = escapePathname pn;
          pn' = (if (slashes u \<or> slashedProtocol proto) \<and> (slashes u \<or> ho \<noteq> []) \<and>
                    pn \<noteq> [] \<and> hd pn \<noteq> CHR ''/'' then ''/'' @ pn else pn);
          ho = (if slashes u \<or> slashedProtocol proto then
                  (if slashes u \<or> ho \<noteq> [] then ''//'' @ ho
                   else if prefix ''file'' proto then ''//'' else ho)
                else ho);
          sr = escapeHash sr;
          hs = (if hs \<noteq> [] \<and> hd hs \<noteq> CHR ''#'' then ''#'' @ hs else hs);
          sr = (if sr \<noteq> [] \<and> hd sr \<noteq> CHR ''?'' then ''?'' @ sr else sr)
      in proto @ ho @ pn' @ sr @ hs)"

section \<open>The environment\<close>

text \<open>
  What the functions below read or change outside their arguments: the clock of the
  machine, in milliseconds since the epoch (\<^verbatim>\<open>Date.now()\<close>, which \<^verbatim>\<open>moment()\<close> reads), and
  the transport, the external WebSocket library, known by the list of the connections
  asked of it so far with \<^verbatim>\<open>new WS(address, null, opt)\<close>.
\<close>

record options =
  opt_headers :: "(string \<times> js_value) list"
  opt_agent :: "js_value option"

record world =
  clock :: int
  created :: "(string \<times> options option) list"

section \<open>Token issuer\<close>

subsection \<open>Time and the signature\<close>

text \<open>
  A \<^verbatim>\<open>Date\<close> holds a time value: a whole number of milliseconds since the epoch, of
  magnitude at most \<open>8.64e15\<close>, or \<^verbatim>\<open>NaN\<close>, the invalid date, which is \<open>None\<close> here.
  \<^verbatim>\<open>new Date(t)\<close> and \<^verbatim>\<open>setTime(t)\<close> make the time value of a number with \<^verbatim>\<open>TimeClip\<close>: a
  number that is not finite or lies beyond the range gives \<^verbatim>\<open>NaN\<close>, and a fraction is cut
  off towards zero.
\<close>

definition timeClip :: "js_number \<Rightarrow> int option" where
  "timeClip t =
     (case t of
        Finite q \<Rightarrow>
          if 8640000000000000 < \<bar>q\<bar> then None
          else Some (if 0 \<le> q then \<lfloor>q\<rfloor> else \<lceil>q\<rceil>)
      | _ \<Rightarrow> None)"

text \<open>\<^verbatim>\<open>moment()\<close> is \<^verbatim>\<open>new Date(Date.now())\<close>.\<close>

definition moment :: "world \<Rightarrow> int option" where
  "moment w = timeClip (Finite (of_int (clock w)))"

text \<open>
  \<^verbatim>\<open>m.add(x, 'seconds')\<close> of the \<^verbatim>\<open>moment\<close> library makes the duration of \<open>x * 1000\<close>
  milliseconds (a \<^verbatim>\<open>NaN\<close> counts for no seconds) and does nothing when the date is
  invalid or the duration is zero; otherwise it calls
  \<^verbatim>\<open>setTime(valueOf() + milliseconds)\<close>, where an infinite sum gives the invalid date.
  \<^verbatim>\<open>m.unix()\<close> is \<^verbatim>\<open>Math.floor(valueOf() / 1000)\<close>, \<^verbatim>\<open>NaN\<close> for the invalid date.
\<close>

definition addSeconds :: "int option \<Rightarrow> js_number \<Rightarrow> int option" where
  "addSeconds d x =
     (case d of
        None \<Rightarrow> None
      | Some t \<Rightarrow>
         (case x of
            Finite q \<Rightarrow>
              (let milliseconds = q * 1000
               in if milliseconds = 0 then Some t
                  else timeClip (Finite (of_int t + milliseconds)))
          | NaN \<Rightarrow> Some t
          | _ \<Rightarrow> None))"

definition unix :: "int option \<Rightarrow> int option" where
  "unix d = map_option (\<lambda>t. t div 1000) d"

text \<open>
  Concatenating a number to a string writes it: a whole number (of less than 22 digits,
  as the seconds of a date are) in decimal, \<^verbatim>\<open>NaN\<close> as \<^verbatim>\<open>NaN\<close>.
\<close>

definition decimalDigit :: "nat \<Rightarrow> char" where
  "decimalDigit d = ''0123456789'' ! d"

fun natToString :: "nat \<Rightarrow> string" where
  "natToString n =
     (if 10 \<le> n then natToString (n div 10) @ [decimalDigit (n mod 10)]
      else [decimalDigit n])"

declare natToString.simps [simp del]

definition intToString :: "int \<Rightarrow> string" where
  "intToString i =
     (if 0 \<le> i then natToString (nat i) else CHR ''-'' # natToString (nat (- i)))"

definition numberToString :: "int option \<Rightarrow> string" where
  "numberToString x = (case x of None \<Rightarrow> ''NaN'' | Some i \<Rightarrow> intToString i)"

text \<open>\<^verbatim>\<open>digest('base64')\<close>: the standard alphabet, padded with \<^verbatim>\<open>=\<close>.\<close>

definition b64Char :: "nat \<Rightarrow> char" where
  "b64Char n =
     ''ABCDEFGHIJKLMNOPQRSTUVWXYZabcdefghijklmnopqrstuvwxyz0123456789+/'' ! n"

fun base64 :: "string \<Rightarrow> string" where
  "base64 (a # b # c # r) =
     [b64Char (of_char a div 4),
      b64Char ((of_char a mod 4) * 16 + of_char b div 16),
      b64Char ((of_char b mod 16) * 4 + of_char c div 64),
      b64Char (of_char c mod 64)] @ base64 r"
| "base64 [a, b] =
     [b64Char (of_char a div 4),
      b64Char ((of_char a mod 4) * 16 + of_char b div 16),
      b64Char ((of_char b mod 16) * 4),
      CHR ''='']"
| "base64 [a] =
     [b64Char (of_char a div 4), b64Char ((of_char a mod 4) * 16), CHR ''='', CHR ''='']"
| "base64 [] = []"

text \<open>
  \<^verbatim>\<open>'abc'.replace(pattern, replacement)\<close> with a string pattern replaces its first
  occurrence only. (The replacement used below is empty, so no \<^verbatim>\<open>$\<close> pattern of the
  replacement string comes into play.)
\<close>

fun js_replace :: "string \<Rightarrow> string \<Rightarrow> string \<Rightarrow> string" where
  "js_replace pat rep [] = (if pat = [] then rep else [])"
| "js_replace pat rep (c # cs) =
     (if prefix pat (c # cs) then rep @ drop (length pat) (c # cs)
      else c # js_replace pat rep cs)"

subsection \<open>createRelayToken\<close>

text \<open>
  \<^verbatim>\<open>crypto.createHmac('sha256', key).update(m).digest()\<close> is the parameter \<open>hmacSha256\<close>,
  from the key and the message to the 32 bytes of the digest; the clock is read from the
  environment \<open>w\<close>. Reading \<^verbatim>\<open>parsedUrl.pathname.replace\<close> when \<open>pathname\<close> is \<open>null\<close> raises
  \<open>TypeError\<close>.
\<close>

definition createRelayToken ::
  "(string \<Rightarrow> string \<Rightarrow> string) \<Rightarrow> world \<Rightarrow> string \<Rightarrow> string \<Rightarrow> string
   \<Rightarrow> js_number js_opt \<Rightarrow> js_error + string" where
  "createRelayToken hmacSha256 w uri keyName key expirationSeconds =
     (case url_parse uri of
        Inl e \<Rightarrow> Inl e
      | Inr parsedUrl \<Rightarrow>
         (let parsedUrl = parsedUrl\<lparr>protocol := Some ''http''\<rparr>;
              parsedUrl = parsedUrl\<lparr>search := None, hash := None, port := None\<rparr>
          in case pathname parsedUrl of
               None \<Rightarrow> Inl TypeError
             | Some pn \<Rightarrow>
                (let parsedUrl = parsedUrl\<lparr>pathname := Some (js_replace ''$hc/'' [] pn)\<rparr>;
                     uri = url_format parsedUrl;
                     expirationSeconds =
                       (case expirationSeconds of
                          Val n \<Rightarrow> if falsy (Val n) then Finite 3600 else n
                        | _ \<Rightarrow> Finite 3600);
                     unixSeconds = unix (addSeconds (moment w) expirationSeconds);
                     string_to_sign =
                       encodeURIComponent uri @ [CHR 0x0A] @ numberToString unixSeconds;
                     signature = base64 (hmacSha256 key string_to_sign);
                     token = ''SharedAccessSignature sr='' @ encodeURIComponent uri
                       @ ''&sig='' @ encodeURIComponent signature
                       @ ''&se='' @ numberToString unixSeconds @ ''&skn='' @ keyName
                 in Inr token)))"

text \<open>
  The value of \<open>uri\<close> after the first five lines of \<^verbatim>\<open>createRelayToken\<close>: the string
  that is signed.
\<close>

definition signedResource :: "string \<Rightarrow> js_error + string" where
  "signedResource uri =
     (case url_parse uri of
        Inl e \<Rightarrow> Inl e
      | Inr parsedUrl \<Rightarrow>
         (let parsedUrl = parsedUrl\<lparr>protocol := Some ''http''\<rparr>;
              parsedUrl = parsedUrl\<lparr>search := None, hash := None, port := None\<rparr>
          in case pathname parsedUrl of
               None \<Rightarrow> Inl TypeError
             | Some pn \<Rightarrow>
                Inr (url_format (parsedUrl\<lparr>pathname := Some (js_replace ''$hc/'' [] pn)\<rparr>))))"

text \<open>The value of \<open>unixSeconds\<close> in \<^verbatim>\<open>createRelayToken\<close>: the expiry that is signed.\<close>

definition expiry :: "world \<Rightarrow> js_number js_opt \<Rightarrow> int option" where
  "expiry w expirationSeconds =
     (let expirationSeconds =
            (case expirationSeconds of
               Val n \<Rightarrow> if falsy (Val n) then Finite 3600 else n
             | _ \<Rightarrow> Finite 3600)
      in unix (addSeconds (moment w) expirationSeconds))"

subsection \<open>appendRelayToken\<close>

text \<open>
  \<^verbatim>\<open>parsedUrl.search + '&sb-hc-token=' + ...\<close>: a \<open>null\<close> search is written \<^verbatim>\<open>null\<close> by
  the string concatenation.
\<close>

definition appendRelayToken ::
  "(string \<Rightarrow> string \<Rightarrow> string) \<Rightarrow> world \<Rightarrow> string \<Rightarrow> string \<Rightarrow> string
   \<Rightarrow> js_number js_opt \<Rightarrow> js_error + string" where
  "appendRelayToken hmacSha256 w uri keyName key expirationSeconds =
     (case createRelayToken hmacSha256 w uri keyName key expirationSeconds of
        Inl e \<Rightarrow> Inl e
      | Inr token \<Rightarrow>
         (case url_parse uri of
            Inl e \<Rightarrow> Inl e
          | Inr parsedUrl \<Rightarrow>
             (let parsedUrl = parsedUrl\<lparr>search :=
                    Some ((case search parsedUrl of None \<Rightarrow> ''null'' | Some s \<Rightarrow> s)
                          @ ''&sb-hc-token='' @ encodeURIComponent token)\<rparr>
              in Inr (url_format parsedUrl))))"

section \<open>Connection factory\<close>

text \<open>
  The listener \<^verbatim>\<open>function() { fn(client) }\<close> closes over the variable \<open>fn\<close>; it is known
  by the value of \<open>fn\<close> it will call, with the client as the argument.
\<close>

datatype listener = CallWithClient js_value

record client =
  address :: string
  protocols :: js_value
  opts :: "options option"
  openListeners :: "listener list"

text \<open>\<^verbatim>\<open>client.on('open', l)\<close> adds a listener after those already registered.\<close>

definition on_open :: "client \<Rightarrow> listener \<Rightarrow> client" where
  "on_open c l = c\<lparr>openListeners := openListeners c @ [l]\<rparr>"

text \<open>
  \<^verbatim>\<open>new WS(address, null, opt)\<close> is recorded in the environment, after the connections
  asked for so far. Assigning \<^verbatim>\<open>opt.agent\<close> when \<open>opt\<close> is \<open>null\<close> raises \<open>TypeError\<close>.
\<close>

definition relayedConnect ::
  "world \<Rightarrow> string \<Rightarrow> js_value \<Rightarrow> js_value \<Rightarrow> js_value \<Rightarrow> (js_error + client) \<times> world" where
  "relayedConnect w addr token agent fn =
     (let opt = None;
          opt = (if \<not> nullish token
                 then Some \<lparr>opt_headers = [(''ServiceBusAuthorization'', token)],
                            opt_agent = None\<rparr>
                 else opt)
      in case (if \<not> nullish agent \<and> typeof agent = ''object''
               then (case opt of
                       None \<Rightarrow> Inl TypeError
                     | Some ob \<Rightarrow> Inr (Some (ob\<lparr>opt_agent := Some agent\<rparr>)))
               else Inr opt) of
           Inl e \<Rightarrow> (Inl e, w)
         | Inr opt \<Rightarrow>
            (let c = \<lparr>address = addr, protocols = JSNull, opts = opt, openListeners = []\<rparr>;
                 c = (if typeof fn = ''function'' then on_open c (CallWithClient fn) else c);
                 c = (if typeof agent = ''function'' then on_open c (CallWithClient fn) else c)
             in (Inr c, w\<lparr>created := created w @ [(addr, opt)]\<rparr>)))"

text \<open>
  When the transport emits \<^verbatim>\<open>open\<close>, the listeners run in the order of registration.
  Calling a value that is not a function raises \<open>TypeError\<close>, which ends the emission.
  The result lists the functions that were called, in order.
\<close>

fun callListener :: "listener \<Rightarrow> js_error + nat" where
  "callListener (CallWithClient (JSFunction f)) = Inr f"
| "callListener (CallWithClient v) = Inl TypeError"

fun emit :: "listener list \<Rightarrow> nat list \<Rightarrow> js_error + nat list" where
  "emit [] called = Inr called"
| "emit (l # ls) called =
     (case callListener l of Inl e \<Rightarrow> Inl e | Inr f \<Rightarrow> emit ls (called @ [f]))"

definition emitOpen :: "client \<Rightarrow> js_error + nat list" where
  "emitOpen c = emit (openListeners c) []"

section \<open>Reading a token back\<close>

text \<open>
  The wire format of the specification,
  \<^verbatim>\<open>SharedAccessSignature sr={..}&sig={..}&se={..}&skn={..}\<close>, read positionally: each
  of the first three fields ends at the next \<^verbatim>\<open>&\<close>, and the key name is what remains.
\<close>

definition field :: "string \<Rightarrow> string" where
  "field s = takeWhile (\<lambda>c. c \<noteq> CHR ''&'') s"

definition afterField :: "string \<Rightarrow> string" where
  "afterField s = dropWhile (\<lambda>c. c \<noteq> CHR ''&'') s"

definition parseSasToken :: "string \<Rightarrow> (string \<times> string \<times> string \<times> string) option" where
  "parseSasToken tok =
     (if \<not> prefix ''SharedAccessSignature sr='' tok then None
      else
        (let r1 = drop (length ''SharedAccessSignature sr='') tok;
             r2 = afterField r1
         in if \<not> prefix ''&sig='' r2 then None
            else
              (let r3 = drop (length ''&sig='') r2;
                   r4 = afterField r3
               in if \<not> prefix ''&se='' r4 then None
                  else
                    (let r5 = drop (length ''&se='') r4;
                         r6 = afterField r5
                     in if \<not> prefix ''&skn='' r6 then None
                        else Some (field r1, field r3, field r5,
                                   drop (length ''&skn='') r6)))))"

definition tokenSr :: "string \<Rightarrow> string option" where
  "tokenSr tok = map_option (\<lambda>(sr, sg, se, skn). sr) (parseSasToken tok)"

definition tokenSig :: "string \<Rightarrow> string option" where
  "tokenSig tok = map_option (\<lambda>(sr, sg, se, skn). sg) (parseSasToken tok)"

definition tokenSe :: "string \<Rightarrow> string option" where
  "tokenSe tok = map_option (\<lambda>(sr, sg, se, skn). se) (parseSasToken tok)"

definition tokenSkn :: "string \<Rightarrow> string option" where
  "tokenSkn tok = map_option (\<lambda>(sr, sg, se, skn). skn) (parseSasToken tok)"

text \<open>Reading a decimal number, as the relay reads the expiry.\<close>

definition digitVal :: "char \<Rightarrow> nat" where
  "digitVal c = of_char c - 48"

definition readNat :: "string \<Rightarrow> nat" where
  "readNat s = foldl (\<lambda>acc c. 10 * acc + digitVal c) 0 s"

definition readNumber :: "string \<Rightarrow> int" where
  "readNumber s = (case s of c # r \<Rightarrow> if c = CHR ''-'' then - int (readNat r) else int (readNat s)
                   | [] \<Rightarrow> 0)"

text \<open>Undoing the URI encoding: every \<^verbatim>\<open>%XX\<close> is the byte \<open>XX\<close>.\<close>

fun percentDecode :: "string \<Rightarrow> string option" where
  "percentDecode [] = Some []"
| "percentDecode (c # cs) =
     (if c = CHR ''%'' then
        (case cs of
           a # b # r \<Rightarrow>
             (case (hexVal a, hexVal b) of
                (Some x, Some y) \<Rightarrow> map_option ((#) (char_of (16 * x + y))) (percentDecode r)
              | _ \<Rightarrow> None)
         | _ \<Rightarrow> None)
      else map_option ((#) c) (percentDecode cs))"

text \<open>Undoing base64.\<close>

definition b64Val :: "char \<Rightarrow> nat option" where
  "b64Val c = (let n = (of_char c :: nat) in
     if 65 \<le> n \<and> n \<le> 90 then Some (n - 65)
     else if 97 \<le> n \<and> n \<le> 122 then Some (n - 71)
     else if 48 \<le> n \<and> n \<le> 57 then Some (n + 4)
     else if c = CHR ''+'' then Some 62
     else if c = CHR ''/'' then Some 63
     else None)"

definition decodeGroup :: "char \<Rightarrow> char \<Rightarrow> char \<Rightarrow> char \<Rightarrow> string option" where
  "decodeGroup w x y z =
     (case (b64Val w, b64Val x) of
        (Some i, Some j) \<Rightarrow>
          (if y = CHR ''='' \<and> z = CHR ''='' then Some [char_of (i * 4 + j div 16)]
           else
             (case b64Val y of
                None \<Rightarrow> None
              | Some k \<Rightarrow>
                 (if z = CHR ''='' then
                    Some [char_of (i * 4 + j div 16), char_of ((j mod 16) * 16 + k div 4)]
                  else
                    (case b64Val z of
                       None \<Rightarrow> None
                     | Some l \<Rightarrow>
                        Some [char_of (i * 4 + j div 16), char_of ((j mod 16) * 16 + k div 4),
                              char_of ((k mod 4) * 64 + l)]))))
      | _ \<Rightarrow> None)"

fun base64Decode :: "string \<Rightarrow> string option" where
  "base64Decode [] = Some []"
| "base64Decode (w # x # y # z # r) =
     (case decodeGroup w x y z of
        None \<Rightarrow> None
      | Some bs \<Rightarrow>
         (if r = [] then Some bs
          else if z = CHR ''='' then None
          else map_option ((@) bs) (base64Decode r)))"
| "base64Decode s = None"

text \<open>
  The check of the specification: recompute the HMAC over the encoded signed resource, a
  line feed and the expiry, as the token carries them, and compare it with the decoded
  signature.
\<close>

definition verifySignature :: "(string \<Rightarrow> string \<Rightarrow> string) \<Rightarrow> string \<Rightarrow> string \<Rightarrow> bool" where
  "verifySignature hmacSha256 key tok =
     (case parseSasToken tok of
        None \<Rightarrow> False
      | Some (sr, sg, se, skn) \<Rightarrow>
         (case (percentDecode sr, percentDecode sg) of
            (Some resource, Some signature) \<Rightarrow>
              base64Decode signature
                = Some (hmacSha256 key (encodeURIComponent resource @ [CHR 0x0A] @ se))
          | _ \<Rightarrow> False))"


section \<open>Properties of the URI builder\<close>

lemma not_null_iff: "not_null x \<longleftrightarrow> (\<exists>v. x = Val v)"
  by (cases x) simp_all

lemma question_in_base:
  "CHR ''?'' \<in> set (createRelayBaseUri ns p) \<longleftrightarrow> CHR ''?'' \<in> set (ns @ p)"
  by (auto simp: createRelayBaseUri_def)

text \<open>
  C5 (as amended). For every namespace, path, token and id, the send URI is the base URI
  \<^verbatim>\<open>wss://<ns>:443/$hc/<path>\<close>, then \<^verbatim>\<open>?sb-hc-action=connect\<close> when the base URI
  holds no question mark and \<^verbatim>\<open>&sb-hc-action=connect\<close> when it holds one, then
  \<^verbatim>\<open>&sb-hc-token=\<close> and the URI-encoded token when the token is not null, then
  \<^verbatim>\<open>&sb-hc-id=\<close> and the URI-encoded id when the id is not null. The listen URI is the
  same string with \<^verbatim>\<open>listen\<close> in the place of \<^verbatim>\<open>connect\<close>.
\<close>

theorem relay_uri_form:
  "createRelayBaseUri ns p = ''wss://'' @ ns @ '':443/$hc/'' @ p \<and>
   createRelaySendUri ns p token id' =
     createRelayBaseUri ns p
       @ (if CHR ''?'' \<in> set (ns @ p) then ''&'' else ''?'') @ ''sb-hc-action='' @ ''connect''
       @ (case token of Val t \<Rightarrow> ''&sb-hc-token='' @ encodeURIComponent t | _ \<Rightarrow> [])
       @ (case id' of Val i \<Rightarrow> ''&sb-hc-id='' @ encodeURIComponent i | _ \<Rightarrow> []) \<and>
   createRelayListenUri ns p token id' =
     createRelayBaseUri ns p
       @ (if CHR ''?'' \<in> set (ns @ p) then ''&'' else ''?'') @ ''sb-hc-action='' @ ''listen''
       @ (case token of Val t \<Rightarrow> ''&sb-hc-token='' @ encodeURIComponent t | _ \<Rightarrow> [])
       @ (case id' of Val i \<Rightarrow> ''&sb-hc-id='' @ encodeURIComponent i | _ \<Rightarrow> [])"
proof (intro conjI)
  show "createRelayBaseUri ns p = ''wss://'' @ ns @ '':443/$hc/'' @ p"
    by (simp add: createRelayBaseUri_def)
next
  show "createRelaySendUri ns p token id' =
     createRelayBaseUri ns p
       @ (if CHR ''?'' \<in> set (ns @ p) then ''&'' else ''?'') @ ''sb-hc-action='' @ ''connect''
       @ (case token of Val t \<Rightarrow> ''&sb-hc-token='' @ encodeURIComponent t | _ \<Rightarrow> [])
       @ (case id' of Val i \<Rightarrow> ''&sb-hc-id='' @ encodeURIComponent i | _ \<Rightarrow> [])"
    unfolding createRelaySendUri_def Let_def question_in_base
    by (cases token; cases id') simp_all
next
  show "createRelayListenUri ns p token id' =
     createRelayBaseUri ns p
       @ (if CHR ''?'' \<in> set (ns @ p) then ''&'' else ''?'') @ ''sb-hc-action='' @ ''listen''
       @ (case token of Val t \<Rightarrow> ''&sb-hc-token='' @ encodeURIComponent t | _ \<Rightarrow> [])
       @ (case id' of Val i \<Rightarrow> ''&sb-hc-id='' @ encodeURIComponent i | _ \<Rightarrow> [])"
    unfolding createRelayListenUri_def Let_def question_in_base
    by (cases token; cases id') simp_all
qed

lemma encode_TOK: "encodeURIComponent ''TOK'' = ''TOK''"
  by code_simp

lemma encode_ID1: "encodeURIComponent ''ID1'' = ''ID1''"
  by code_simp

text \<open>The example of the specification.\<close>

theorem relay_uri_form_witness:
  "createRelaySendUri ''ns.servicebus.windows.net'' ''foo'' (Val ''TOK'') (Val ''ID1'') =
     ''wss://ns.servicebus.windows.net:443/$hc/foo?sb-hc-action=connect&sb-hc-token=TOK&sb-hc-id=ID1'' \<and>
   createRelayListenUri ''ns.servicebus.windows.net'' ''foo'' (Val ''TOK'') (Val ''ID1'') =
     ''wss://ns.servicebus.windows.net:443/$hc/foo?sb-hc-action=listen&sb-hc-token=TOK&sb-hc-id=ID1''"
  using relay_uri_form [of "''ns.servicebus.windows.net''" "''foo''" "Val ''TOK''" "Val ''ID1''"]
  by (simp add: encode_TOK encode_ID1)

text \<open>
  C5 as it is written fails for a path that holds a question mark: the action parameter
  then follows an ampersand, not a question mark.
\<close>

theorem relay_uri_form_counterexample:
  "createRelaySendUri ''ns.servicebus.windows.net'' ''a?b'' Undefined Undefined =
     ''wss://ns.servicebus.windows.net:443/$hc/a?b&sb-hc-action=connect'' \<and>
   createRelaySendUri ''ns.servicebus.windows.net'' ''a?b'' Undefined Undefined \<noteq>
     createRelayBaseUri ''ns.servicebus.windows.net'' ''a?b'' @ ''?sb-hc-action=connect''"
  by (simp add: createRelaySendUri_def createRelayBaseUri_def)

lemma no_param_after_action:
  "\<not> sublist ''sb-hc-token'' ''?sb-hc-action=connect''"
  "\<not> sublist ''sb-hc-token'' ''&sb-hc-action=connect''"
  "\<not> sublist ''sb-hc-id'' ''?sb-hc-action=connect''"
  "\<not> sublist ''sb-hc-id'' ''&sb-hc-action=connect''"
  "\<not> sublist ''sb-hc-token'' ''?sb-hc-action=listen''"
  "\<not> sublist ''sb-hc-token'' ''&sb-hc-action=listen''"
  "\<not> sublist ''sb-hc-id'' ''?sb-hc-action=listen''"
  "\<not> sublist ''sb-hc-id'' ''&sb-hc-action=listen''"
  by code_simp+

text \<open>
  C6. With the token and the id both absent or null, the send URI ends exactly at
  \<^verbatim>\<open>sb-hc-action=connect\<close> and the listen URI at \<^verbatim>\<open>sb-hc-action=listen\<close>: what follows
  the base URI is one separator and the action parameter, nothing else. So the URI does
  not end in an ampersand, and what the function adds to the base URI names neither
  \<^verbatim>\<open>sb-hc-token\<close> nor \<^verbatim>\<open>sb-hc-id\<close>.
\<close>

theorem relay_uri_optional_omitted:
  assumes "\<not> not_null token" and "\<not> not_null id'"
  shows "(\<exists>sep. sep \<in> {CHR ''?'', CHR ''&''} \<and>
            createRelaySendUri ns p token id' =
              createRelayBaseUri ns p @ [sep] @ ''sb-hc-action=connect'' \<and>
            createRelayListenUri ns p token id' =
              createRelayBaseUri ns p @ [sep] @ ''sb-hc-action=listen'') \<and>
         suffix ''sb-hc-action=connect'' (createRelaySendUri ns p token id') \<and>
         suffix ''sb-hc-action=listen'' (createRelayListenUri ns p token id') \<and>
         last (createRelaySendUri ns p token id') \<noteq> CHR ''&'' \<and>
         last (createRelayListenUri ns p token id') \<noteq> CHR ''&'' \<and>
         \<not> sublist ''sb-hc-token''
             (drop (length (createRelayBaseUri ns p)) (createRelaySendUri ns p token id')) \<and>
         \<not> sublist ''sb-hc-id''
             (drop (length (createRelayBaseUri ns p)) (createRelaySendUri ns p token id')) \<and>
         \<not> sublist ''sb-hc-token''
             (drop (length (createRelayBaseUri ns p)) (createRelayListenUri ns p token id')) \<and>
         \<not> sublist ''sb-hc-id''
             (drop (length (createRelayBaseUri ns p)) (createRelayListenUri ns p token id'))"
proof -
  from assms(1) have t: "token = Undefined \<or> token = Null"
    by (cases token) simp_all
  from assms(2) have i: "id' = Undefined \<or> id' = Null"
    by (cases id') simp_all
  define sep where "sep = (if CHR ''?'' \<in> set (ns @ p) then CHR ''&'' else CHR ''?'')"
  have s: "createRelaySendUri ns p token id' =
             createRelayBaseUri ns p @ [sep] @ ''sb-hc-action=connect''"
    unfolding createRelaySendUri_def Let_def question_in_base sep_def
    using t i by auto
  have l: "createRelayListenUri ns p token id' =
             createRelayBaseUri ns p @ [sep] @ ''sb-hc-action=listen''"
    unfolding createRelayListenUri_def Let_def question_in_base sep_def
    using t i by auto
  have sep: "sep \<in> {CHR ''?'', CHR ''&''}"
    by (simp add: sep_def)
  have "suffix ''sb-hc-action=connect'' (createRelaySendUri ns p token id')"
    unfolding s suffix_def by (intro exI [of _ "createRelayBaseUri ns p @ [sep]"]) simp
  moreover have "suffix ''sb-hc-action=listen'' (createRelayListenUri ns p token id')"
    unfolding l suffix_def by (intro exI [of _ "createRelayBaseUri ns p @ [sep]"]) simp
  moreover have "last (createRelaySendUri ns p token id') \<noteq> CHR ''&''"
    unfolding s by simp
  moreover have "last (createRelayListenUri ns p token id') \<noteq> CHR ''&''"
    unfolding l by simp
  moreover have
    "\<not> sublist ''sb-hc-token''
        (drop (length (createRelayBaseUri ns p)) (createRelaySendUri ns p token id'))"
    "\<not> sublist ''sb-hc-id''
        (drop (length (createRelayBaseUri ns p)) (createRelaySendUri ns p token id'))"
    "\<not> sublist ''sb-hc-token''
        (drop (length (createRelayBaseUri ns p)) (createRelayListenUri ns p token id'))"
    "\<not> sublist ''sb-hc-id''
        (drop (length (createRelayBaseUri ns p)) (createRelayListenUri ns p token id'))"
    unfolding s l using sep no_param_after_action by auto
  ultimately show ?thesis
    using s l sep by blast
qed

theorem relay_uri_optional_omitted_witness:
  "createRelaySendUri ''ns.servicebus.windows.net'' ''foo'' Undefined Null =
     ''wss://ns.servicebus.windows.net:443/$hc/foo?sb-hc-action=connect'' \<and>
   suffix ''sb-hc-action=connect''
     (createRelaySendUri ''ns.servicebus.windows.net'' ''foo'' Undefined Null) \<and>
   last (createRelaySendUri ''ns.servicebus.windows.net'' ''foo'' Undefined Null) \<noteq> CHR ''&''"
  using relay_uri_optional_omitted
    [of Undefined Null "''ns.servicebus.windows.net''" "''foo''"]
  by (simp add: createRelaySendUri_def createRelayBaseUri_def)

section \<open>Properties of the connection factory\<close>

text \<open>
  C10. With a token that is \<open>null\<close> or \<open>undefined\<close> and an agent that is an object,
  \<^verbatim>\<open>relayedConnect\<close> raises \<open>TypeError\<close>, and no connection has been asked of the
  transport: the environment, with its list of created connections, is as it was.
\<close>

theorem relayedConnect_agent_needs_token:
  assumes "nullish token"
  shows "relayedConnect w addr token (JSObject a) fn = (Inl TypeError, w)"
  using assms by (simp add: relayedConnect_def)

theorem relayedConnect_agent_needs_token_witness:
  "nullish JSNull \<and>
   relayedConnect \<lparr>clock = 1609459200000, created = []\<rparr>
     ''wss://ns.servicebus.windows.net:443/$hc/foo'' JSNull (JSObject 0) (JSFunction 1) =
     (Inl TypeError, \<lparr>clock = 1609459200000, created = []\<rparr>)"
  using relayedConnect_agent_needs_token
    [of JSNull "\<lparr>clock = 1609459200000, created = []\<rparr>"
      "''wss://ns.servicebus.windows.net:443/$hc/foo''" 0 "JSFunction 1"]
  by simp

text \<open>
  C9, at the inputs where the code departs from it. With both \<open>agent\<close> and \<open>fn\<close> functions,
  two listeners are registered and \<open>fn\<close> runs twice at \<^verbatim>\<open>open\<close>. With \<open>agent\<close> a function
  and \<open>fn\<close> absent, the one listener calls \<open>fn\<close>, not \<open>agent\<close>, and raises \<open>TypeError\<close> at
  \<^verbatim>\<open>open\<close>.
\<close>

theorem relayedConnect_open_listeners:
  "fst (relayedConnect \<lparr>clock = 1609459200000, created = []\<rparr> ''wss://x'' JSNull
          (JSFunction 1) (JSFunction 2)) =
     Inr \<lparr>address = ''wss://x'', protocols = JSNull, opts = None,
          openListeners = [CallWithClient (JSFunction 2), CallWithClient (JSFunction 2)]\<rparr> \<and>
   emitOpen \<lparr>address = ''wss://x'', protocols = JSNull, opts = None,
          openListeners = [CallWithClient (JSFunction 2), CallWithClient (JSFunction 2)]\<rparr>
     = Inr [2, 2] \<and>
   fst (relayedConnect \<lparr>clock = 1609459200000, created = []\<rparr> ''wss://x'' JSNull
          (JSFunction 1) JSUndefined) =
     Inr \<lparr>address = ''wss://x'', protocols = JSNull, opts = None,
          openListeners = [CallWithClient JSUndefined]\<rparr> \<and>
   emitOpen \<lparr>address = ''wss://x'', protocols = JSNull, opts = None,
          openListeners = [CallWithClient JSUndefined]\<rparr> = Inl TypeError"
  by (simp add: relayedConnect_def on_open_def emitOpen_def)


section \<open>Properties of the encodings\<close>

lemma less_16_cases:
  "(n::nat) < 16 \<Longrightarrow> n \<in> {0, 1, 2, 3, 4, 5, 6, 7, 8, 9, 10, 11, 12, 13, 14, 15}"
  by simp arith

lemma hexVal_hexDigit: "n < 16 \<Longrightarrow> hexVal (hexDigit n) = Some n"
  by (drule less_16_cases) (auto simp: hexVal_def hexDigit_def)

lemma hexDigit_in: "n < 16 \<Longrightarrow> hexDigit n \<in> set ''0123456789ABCDEF''"
  unfolding hexDigit_def by (rule nth_mem) simp

lemma high_nibble: "(of_char c :: nat) div 16 < 16"
  using nat_of_char_less_256 [of c] by arith

lemma set_pctEncode: "set (pctEncode c) \<subseteq> set ''%0123456789ABCDEF''"
  using hexDigit_in [OF high_nibble [of c]] hexDigit_in [of "of_char c mod 16"]
  by (auto simp: pctEncode_def)

lemma uriUnescaped_not_amp: "uriUnescaped c \<Longrightarrow> c \<noteq> CHR ''&'' \<and> c \<noteq> CHR ''%''"
  by (auto simp: uriUnescaped_def isAlnum_def)

lemma encodeURIComponent_Cons:
  "encodeURIComponent (c # s) =
     (if uriUnescaped c then [c] else pctEncode c) @ encodeURIComponent s"
  by (simp add: encodeURIComponent_def)

lemma amp_notin_encodeURIComponent: "CHR ''&'' \<notin> set (encodeURIComponent s)"
proof (induction s)
  case Nil
  show ?case by (simp add: encodeURIComponent_def)
next
  case (Cons c s)
  have "CHR ''&'' \<notin> set (if uriUnescaped c then [c] else pctEncode c)"
    using uriUnescaped_not_amp [of c] set_pctEncode [of c] by auto
  with Cons show ?case
    by (simp add: encodeURIComponent_Cons)
qed

lemma percentDecode_pctEncode:
  "percentDecode (pctEncode c @ r) = map_option ((#) c) (percentDecode r)"
proof -
  have "16 * (of_char c div 16) + of_char c mod 16 = (of_char c :: nat)"
    by simp
  then show ?thesis
    by (simp add: pctEncode_def hexVal_hexDigit high_nibble)
qed

lemma percentDecode_encodeURIComponent: "percentDecode (encodeURIComponent s) = Some s"
proof (induction s)
  case Nil
  show ?case by (simp add: encodeURIComponent_def)
next
  case (Cons c s)
  show ?case
  proof (cases "uriUnescaped c")
    case True
    with uriUnescaped_not_amp [of c] Cons show ?thesis
      by (simp add: encodeURIComponent_Cons)
  next
    case False
    with Cons show ?thesis
      by (simp add: encodeURIComponent_Cons percentDecode_pctEncode del: percentDecode.simps)
  qed
qed

lemma set_natToString: "set (natToString n) \<subseteq> set ''0123456789''"
proof (induction n rule: natToString.induct)
  case (1 n)
  have d: "decimalDigit (k mod 10) \<in> set ''0123456789''" for k
    unfolding decimalDigit_def by (rule nth_mem) simp
  show ?case
  proof (cases "10 \<le> n")
    case True
    with 1 d [of n] show ?thesis
      by (subst natToString.simps) auto
  next
    case False
    then have "n mod 10 = n" by simp
    with d [of n] False show ?thesis
      by (subst natToString.simps) auto
  qed
qed

lemma amp_notin_intToString: "CHR ''&'' \<notin> set (intToString i)"
  using set_natToString [of "nat i"] set_natToString [of "nat (- i)"]
  by (auto simp: intToString_def)

lemma amp_notin_numberToString: "CHR ''&'' \<notin> set (numberToString x)"
  by (cases x) (simp_all add: numberToString_def amp_notin_intToString)

subsection \<open>base64\<close>

lemma b64_row:
  assumes "q \<in> {0, 1, 2, 3}" and "r < 16"
  shows "b64Val (b64Char (16 * q + r)) = Some (16 * q + r)"
  using assms(1) less_16_cases [OF assms(2)]
  by (auto simp: b64Val_def b64Char_def)

lemma b64Val_b64Char:
  assumes "n < 64"
  shows "b64Val (b64Char n) = Some n"
proof -
  from assms have "n div 16 \<in> {0, 1, 2, 3}"
    by simp arith
  then have "b64Val (b64Char (16 * (n div 16) + n mod 16)) = Some (16 * (n div 16) + n mod 16)"
    by (rule b64_row) simp
  then show ?thesis
    by (simp only: mult_div_mod_eq)
qed

lemma b64Char_not_pad: "n < 64 \<Longrightarrow> b64Char n \<noteq> CHR ''=''"
proof
  assume "n < 64" and "b64Char n = CHR ''=''"
  then have "b64Val (CHR ''='') = Some n"
    using b64Val_b64Char [of n] by simp
  then show False
    by (simp add: b64Val_def)
qed

lemma sextets:
  fixes x y z :: nat
  assumes "x < 256" "y < 256" "z < 256"
  shows "x div 4 < 64" "(x mod 4) * 16 + y div 16 < 64" "(y mod 16) * 4 + z div 64 < 64"
    "z mod 64 < 64" "(x mod 4) * 16 < 64" "(y mod 16) * 4 < 64"
proof -
  have x4: "x mod 4 < 4" and y16: "y mod 16 < 16" by simp_all
  have yd: "y div 16 < 16" and zd: "z div 64 < 4" and xd: "x div 4 < 64"
    using assms by (simp_all add: less_mult_imp_div_less)
  show "x div 4 < 64" by (rule xd)
  show "(x mod 4) * 16 + y div 16 < 64" using x4 yd by linarith
  show "(y mod 16) * 4 + z div 64 < 64" using y16 zd by linarith
  show "z mod 64 < 64" by simp
  show "(x mod 4) * 16 < 64" using x4 by linarith
  show "(y mod 16) * 4 < 64" using y16 by linarith
qed

lemma octets:
  fixes x y z :: nat
  assumes "x < 256" "y < 256" "z < 256"
  shows "x div 4 * 4 + ((x mod 4) * 16 + y div 16) div 16 = x"
    "(((x mod 4) * 16 + y div 16) mod 16) * 16 + ((y mod 16) * 4 + z div 64) div 4 = y"
    "(((y mod 16) * 4 + z div 64) mod 4) * 64 + z mod 64 = z"
    "x div 4 * 4 + ((x mod 4) * 16) div 16 = x"
    "(((x mod 4) * 16 + y div 16) mod 16) * 16 + ((y mod 16) * 4) div 4 = y"
proof -
  have yd: "y div 16 < 16" and zd: "z div 64 < 4"
    using assms by (simp_all add: less_mult_imp_div_less)
  have a: "((x mod 4) * 16 + y div 16) div 16 = x mod 4"
    using yd by simp
  have b: "((x mod 4) * 16 + y div 16) mod 16 = y div 16"
    using yd by simp
  have c: "((y mod 16) * 4 + z div 64) div 4 = y mod 16"
    using zd by simp
  have d: "((y mod 16) * 4 + z div 64) mod 4 = z div 64"
    using zd by simp
  show "x div 4 * 4 + ((x mod 4) * 16 + y div 16) div 16 = x"
    unfolding a by simp
  show "(((x mod 4) * 16 + y div 16) mod 16) * 16 + ((y mod 16) * 4 + z div 64) div 4 = y"
    unfolding b c by simp
  show "(((y mod 16) * 4 + z div 64) mod 4) * 64 + z mod 64 = z"
    unfolding d by simp
  show "x div 4 * 4 + ((x mod 4) * 16) div 16 = x"
    by simp
  show "(((x mod 4) * 16 + y div 16) mod 16) * 16 + ((y mod 16) * 4) div 4 = y"
    unfolding b by simp
qed

lemma decodeGroup_values:
  assumes "b64Val w = Some i" "b64Val x = Some j" "b64Val y = Some k" "b64Val z = Some l"
    and "z \<noteq> CHR ''=''"
  shows "decodeGroup w x y z =
    Some [char_of (i * 4 + j div 16), char_of ((j mod 16) * 16 + k div 4),
          char_of ((k mod 4) * 64 + l)]"
  using assms by (simp add: decodeGroup_def)

lemma decodeGroup_values2:
  assumes "b64Val w = Some i" "b64Val x = Some j" "b64Val y = Some k" "y \<noteq> CHR ''=''"
  shows "decodeGroup w x y (CHR ''='') =
    Some [char_of (i * 4 + j div 16), char_of ((j mod 16) * 16 + k div 4)]"
  using assms by (simp add: decodeGroup_def)

lemma decodeGroup_values1:
  assumes "b64Val w = Some i" "b64Val x = Some j"
  shows "decodeGroup w x (CHR ''='') (CHR ''='') = Some [char_of (i * 4 + j div 16)]"
  using assms by (simp add: decodeGroup_def)

lemma decodeGroup_three:
  "decodeGroup (b64Char (of_char a div 4))
     (b64Char ((of_char a mod 4) * 16 + of_char b div 16))
     (b64Char ((of_char b mod 16) * 4 + of_char c div 64))
     (b64Char (of_char c mod 64)) = Some [a, b, c]"
proof -
  note b = nat_of_char_less_256 [of a] nat_of_char_less_256 [of b] nat_of_char_less_256 [of c]
  note s = sextets [OF b]
  note o = octets [OF b]
  show ?thesis
    by (subst decodeGroup_values [OF b64Val_b64Char [OF s(1)] b64Val_b64Char [OF s(2)]
          b64Val_b64Char [OF s(3)] b64Val_b64Char [OF s(4)] b64Char_not_pad [OF s(4)]])
       (simp only: o char_of_char)
qed

lemma decodeGroup_two:
  "decodeGroup (b64Char (of_char a div 4))
     (b64Char ((of_char a mod 4) * 16 + of_char b div 16))
     (b64Char ((of_char b mod 16) * 4)) (CHR ''='') = Some [a, b]"
proof -
  note b = nat_of_char_less_256 [of a] nat_of_char_less_256 [of b] nat_of_char_less_256 [of b]
  note s = sextets [OF b]
  note o = octets [OF b]
  show ?thesis
    by (subst decodeGroup_values2 [OF b64Val_b64Char [OF s(1)] b64Val_b64Char [OF s(2)]
          b64Val_b64Char [OF s(6)] b64Char_not_pad [OF s(6)]])
       (simp only: o char_of_char)
qed

lemma decodeGroup_one:
  "decodeGroup (b64Char (of_char a div 4)) (b64Char ((of_char a mod 4) * 16))
     (CHR ''='') (CHR ''='') = Some [a]"
proof -
  note b = nat_of_char_less_256 [of a] nat_of_char_less_256 [of a] nat_of_char_less_256 [of a]
  note s = sextets [OF b]
  note o = octets [OF b]
  show ?thesis
    by (subst decodeGroup_values1 [OF b64Val_b64Char [OF s(1)] b64Val_b64Char [OF s(5)]])
       (simp only: o char_of_char)
qed

lemma base64_Nil_iff: "base64 bs = [] \<longleftrightarrow> bs = []"
  by (induction bs rule: base64.induct) simp_all

lemma base64Decode_base64: "base64Decode (base64 bs) = Some bs"
proof (induction bs rule: base64.induct)
  case (1 a b c r)
  have p: "b64Char (of_char c mod 64) \<noteq> CHR ''=''"
    by (rule b64Char_not_pad) simp
  show ?case
    using 1 p by (simp add: decodeGroup_three base64_Nil_iff del: base64Decode.simps(2))
        (simp add: decodeGroup_three base64_Nil_iff)
next
  case (2 a b)
  show ?case by (simp add: decodeGroup_two)
next
  case (3 a)
  show ?case by (simp add: decodeGroup_one)
next
  case 4
  show ?case by simp
qed

section \<open>Properties of the token issuer\<close>

lemma field_append: "CHR ''&'' \<notin> set a \<Longrightarrow> field (a @ CHR ''&'' # r) = a"
  by (auto simp: field_def takeWhile_tail)

lemma afterField_append: "CHR ''&'' \<notin> set a \<Longrightarrow> afterField (a @ CHR ''&'' # r) = CHR ''&'' # r"
  by (auto simp: afterField_def dropWhile_append3)

lemma parseSasToken_fields:
  assumes "CHR ''&'' \<notin> set a" "CHR ''&'' \<notin> set b" "CHR ''&'' \<notin> set c"
  shows "parseSasToken (''SharedAccessSignature sr='' @ a @ ''&sig='' @ b @ ''&se='' @ c
           @ ''&skn='' @ k) = Some (a, b, c, k)"
  using assms by (simp add: parseSasToken_def field_append afterField_append)

text \<open>
  Within the range of a \<^verbatim>\<open>Date\<close>, the clock is read as it is, and a whole number of
  seconds is added as it is.
\<close>

lemma timeClip_whole:
  "timeClip (Finite (of_int k)) = (if 8640000000000000 < \<bar>k\<bar> then None else Some k)"
proof -
  have "(8640000000000000 < \<bar>of_int k :: rat\<bar>) = (8640000000000000 < \<bar>k\<bar>)"
    by (simp only: of_int_abs [symmetric] of_int_numeral_less_iff)
  then show ?thesis
    by (simp add: timeClip_def)
qed

lemma moment_in_range:
  assumes "\<bar>clock w\<bar> \<le> 8640000000000000"
  shows "moment w = Some (clock w)"
  using assms by (simp add: moment_def timeClip_whole)

lemma unix_moment:
  assumes "\<bar>clock w\<bar> \<le> 8640000000000000"
  shows "unix (moment w) = Some (clock w div 1000)"
  using assms by (simp add: moment_in_range unix_def)

lemma addSeconds_whole:
  assumes "\<bar>t + 1000 * n\<bar> \<le> 8640000000000000"
  shows "addSeconds (Some t) (Finite (of_int n)) = Some (t + 1000 * n)"
proof (cases "n = 0")
  case True
  then show ?thesis by (simp add: addSeconds_def)
next
  case False
  have eq: "of_int t + of_int n * 1000 = (of_int (t + 1000 * n) :: rat)"
    by simp
  have "addSeconds (Some t) (Finite (of_int n)) =
          timeClip (Finite (of_int t + of_int n * 1000))"
    using False by (simp add: addSeconds_def Let_def)
  also have "\<dots> = timeClip (Finite (of_int (t + 1000 * n)))"
    by (simp only: eq)
  also have "\<dots> = Some (t + 1000 * n)"
    using assms by (simp only: timeClip_whole) simp
  finally show ?thesis .
qed

lemma expiry_whole:
  assumes "\<bar>clock w\<bar> \<le> 8640000000000000"
    and "\<bar>clock w + 1000 * n\<bar> \<le> 8640000000000000"
    and "falsy e \<and> n = 3600 \<or> e = Val (Finite (of_int n)) \<and> n \<noteq> 0"
  shows "expiry w e = Some (clock w div 1000 + n)"
proof -
  have "(case e of Val x \<Rightarrow> if falsy (Val x) then Finite 3600 else x | _ \<Rightarrow> Finite 3600)
          = Finite (of_int n)"
    using assms(3) by (cases e) auto
  then have "expiry w e = unix (addSeconds (Some (clock w)) (Finite (of_int n)))"
    by (simp add: expiry_def moment_in_range [OF assms(1)])
  also have "\<dots> = Some ((clock w + 1000 * n) div 1000)"
    by (simp only: addSeconds_whole [OF assms(2)] unix_def option.map)
  also have "(clock w + 1000 * n) div 1000 = clock w div 1000 + n"
    by simp
  finally show ?thesis .
qed

lemma createRelayToken_signedResource:
  "createRelayToken h w uri kn key e =
     (case signedResource uri of
        Inl err \<Rightarrow> Inl err
      | Inr r \<Rightarrow>
         Inr (''SharedAccessSignature sr='' @ encodeURIComponent r
              @ ''&sig='' @ encodeURIComponent (base64 (h key (encodeURIComponent r @ [CHR 0x0A]
                   @ numberToString (expiry w e))))
              @ ''&se='' @ numberToString (expiry w e)
              @ ''&skn='' @ kn))"
  by (simp add: createRelayToken_def signedResource_def expiry_def Let_def
      split: sum.splits option.splits js_opt.splits)

lemma less_10_cases: "(n::nat) < 10 \<Longrightarrow> n \<in> {0, 1, 2, 3, 4, 5, 6, 7, 8, 9}"
  by simp arith

lemma digitVal_decimalDigit: "n < 10 \<Longrightarrow> digitVal (decimalDigit n) = n"
  by (drule less_10_cases) (auto simp: digitVal_def decimalDigit_def)

lemma decimalDigit_not_minus: "n < 10 \<Longrightarrow> decimalDigit n \<noteq> CHR ''-''"
  by (drule less_10_cases) (auto simp: decimalDigit_def)

lemma readNat_snoc: "readNat (s @ [c]) = 10 * readNat s + digitVal c"
  by (simp add: readNat_def)

lemma readNat_natToString: "readNat (natToString n) = n"
proof (induction n rule: natToString.induct)
  case (1 n)
  show ?case
  proof (cases "10 \<le> n")
    case True
    with 1 show ?thesis
      by (subst natToString.simps) (simp add: readNat_snoc digitVal_decimalDigit)
  next
    case False
    then show ?thesis
      by (subst natToString.simps) (simp add: readNat_def digitVal_decimalDigit)
  qed
qed

lemma natToString_not_Nil: "natToString n \<noteq> []"
  by (subst natToString.simps) simp

lemma hd_natToString: "hd (natToString n) \<noteq> CHR ''-''"
  using set_natToString [of n] natToString_not_Nil [of n]
  by (cases "natToString n") auto

lemma readNumber_intToString: "readNumber (intToString i) = i"
proof (cases "0 \<le> i")
  case True
  then show ?thesis
    using hd_natToString [of "nat i"] natToString_not_Nil [of "nat i"]
    by (cases "natToString (nat i)")
       (auto simp: readNumber_def intToString_def readNat_natToString
             dest: arg_cong [where f = readNat])
next
  case False
  then show ?thesis
    by (simp add: readNumber_def intToString_def readNat_natToString)
qed

subsection \<open>A worked example\<close>

text \<open>
  The example of the specification: the clock reads 2021-01-01T00:00:00Z and the token
  is to last 60 seconds. The stand-in for the HMAC function is concatenation of the key
  and the message.
\<close>

lemma example_signedResource:
  "signedResource ''https://contoso.servicebus.windows.net/$hc/foo?x=1#frag'' =
     Inr ''http://contoso.servicebus.windows.net/foo''"
  by code_simp

lemma example_encoded:
  "encodeURIComponent ''http://contoso.servicebus.windows.net/foo'' =
     ''http%3A%2F%2Fcontoso.servicebus.windows.net%2Ffoo''"
  by code_simp

lemma example_unixSeconds:
  "expiry \<lparr>clock = 1609459200000, created = []\<rparr> (Val (Finite 60)) = Some 1609459260"
  by (simp add: expiry_def moment_def timeClip_def addSeconds_def unix_def)

lemma example_expiry: "numberToString (Some 1609459260) = ''1609459260''"
  by (simp add: numberToString_def intToString_def natToString.simps decimalDigit_def)

lemma example_signature:
  "encodeURIComponent (base64 (''s3cret!'' @
      ''http%3A%2F%2Fcontoso.servicebus.windows.net%2Ffoo'' @ [CHR 0x0A] @ ''1609459260'')) =
     ''czNjcmV0IWh0dHAlM0ElMkYlMkZjb250b3NvLnNlcnZpY2VidXMud2luZG93cy5uZXQlMkZmb28KMTYwOTQ1OTI2MA%3D%3D''"
  by code_simp

lemma example_token:
  "createRelayToken (\<lambda>k m. k @ m) \<lparr>clock = 1609459200000, created = []\<rparr>
     ''https://contoso.servicebus.windows.net/$hc/foo?x=1#frag''
     ''RootManageSharedAccessKey'' ''s3cret!'' (Val (Finite 60)) =
   Inr ''SharedAccessSignature sr=http%3A%2F%2Fcontoso.servicebus.windows.net%2Ffoo&sig=czNjcmV0IWh0dHAlM0ElMkYlMkZjb250b3NvLnNlcnZpY2VidXMud2luZG93cy5uZXQlMkZmb28KMTYwOTQ1OTI2MA%3D%3D&se=1609459260&skn=RootManageSharedAccessKey''"
  by (simp add: createRelayToken_signedResource example_signedResource example_encoded
      example_unixSeconds example_expiry example_signature [simplified])

text \<open>
  The same call with no \<open>expirationSeconds\<close>, for \<open>8640000000000\<close> seconds, which leads
  beyond the last date, and for a second and a half.
\<close>

lemma default_unixSeconds:
  "expiry \<lparr>clock = 1609459200000, created = []\<rparr> Undefined = Some 1609462800"
  by (simp add: expiry_def moment_def timeClip_def addSeconds_def unix_def)

lemma default_expiry: "numberToString (Some 1609462800) = ''1609462800''"
  by (simp add: numberToString_def intToString_def natToString.simps decimalDigit_def)

lemma default_signature:
  "encodeURIComponent (base64 (''s3cret!'' @
      ''http%3A%2F%2Fcontoso.servicebus.windows.net%2Ffoo'' @ [CHR 0x0A] @ ''1609462800'')) =
     ''czNjcmV0IWh0dHAlM0ElMkYlMkZjb250b3NvLnNlcnZpY2VidXMud2luZG93cy5uZXQlMkZmb28KMTYwOTQ2MjgwMA%3D%3D''"
  by code_simp

lemma default_token:
  "createRelayToken (\<lambda>k m. k @ m) \<lparr>clock = 1609459200000, created = []\<rparr>
     ''https://contoso.servicebus.windows.net/$hc/foo?x=1#frag''
     ''RootManageSharedAccessKey'' ''s3cret!'' Undefined =
   Inr ''SharedAccessSignature sr=http%3A%2F%2Fcontoso.servicebus.windows.net%2Ffoo&sig=czNjcmV0IWh0dHAlM0ElMkYlMkZjb250b3NvLnNlcnZpY2VidXMud2luZG93cy5uZXQlMkZmb28KMTYwOTQ2MjgwMA%3D%3D&se=1609462800&skn=RootManageSharedAccessKey''"
  by (simp add: createRelayToken_signedResource example_signedResource example_encoded
      default_unixSeconds default_expiry default_signature [simplified])

lemma beyond_unixSeconds:
  "expiry \<lparr>clock = 1609459200000, created = []\<rparr> (Val (Finite 8640000000000)) = None"
  by (simp add: expiry_def moment_def timeClip_def addSeconds_def unix_def)

lemma beyond_signature:
  "encodeURIComponent (base64 (''s3cret!'' @
      ''http%3A%2F%2Fcontoso.servicebus.windows.net%2Ffoo'' @ [CHR 0x0A] @ ''NaN'')) =
     ''czNjcmV0IWh0dHAlM0ElMkYlMkZjb250b3NvLnNlcnZpY2VidXMud2luZG93cy5uZXQlMkZmb28KTmFO''"
  by code_simp

lemma beyond_token:
  "createRelayToken (\<lambda>k m. k @ m) \<lparr>clock = 1609459200000, created = []\<rparr>
     ''https://contoso.servicebus.windows.net/$hc/foo?x=1#frag''
     ''RootManageSharedAccessKey'' ''s3cret!'' (Val (Finite 8640000000000)) =
   Inr ''SharedAccessSignature sr=http%3A%2F%2Fcontoso.servicebus.windows.net%2Ffoo&sig=czNjcmV0IWh0dHAlM0ElMkYlMkZjb250b3NvLnNlcnZpY2VidXMud2luZG93cy5uZXQlMkZmb28KTmFO&se=NaN&skn=RootManageSharedAccessKey''"
  by (simp add: createRelayToken_signedResource example_signedResource example_encoded
      beyond_unixSeconds numberToString_def beyond_signature [simplified])

lemma beyond_se:
  "tokenSe ''SharedAccessSignature sr=http%3A%2F%2Fcontoso.servicebus.windows.net%2Ffoo&sig=czNjcmV0IWh0dHAlM0ElMkYlMkZjb250b3NvLnNlcnZpY2VidXMud2luZG93cy5uZXQlMkZmb28KTmFO&se=NaN&skn=RootManageSharedAccessKey'' = Some ''NaN''"
  by code_simp

lemma beyond_sum: "intToString 8641609459200 = ''8641609459200''"
  by (simp add: intToString_def natToString.simps decimalDigit_def)

lemma fraction_unixSeconds:
  "expiry \<lparr>clock = 1609459200000, created = []\<rparr> (Val (Finite (3 / 2))) = Some 1609459201"
  by (simp add: expiry_def moment_def timeClip_def addSeconds_def unix_def)

lemma fraction_expiry: "numberToString (Some 1609459201) = ''1609459201''"
  by (simp add: numberToString_def intToString_def natToString.simps decimalDigit_def)

lemma fraction_signature:
  "encodeURIComponent (base64 (''s3cret!'' @
      ''http%3A%2F%2Fcontoso.servicebus.windows.net%2Ffoo'' @ [CHR 0x0A] @ ''1609459201'')) =
     ''czNjcmV0IWh0dHAlM0ElMkYlMkZjb250b3NvLnNlcnZpY2VidXMud2luZG93cy5uZXQlMkZmb28KMTYwOTQ1OTIwMQ%3D%3D''"
  by code_simp

lemma fraction_token:
  "createRelayToken (\<lambda>k m. k @ m) \<lparr>clock = 1609459200000, created = []\<rparr>
     ''https://contoso.servicebus.windows.net/$hc/foo?x=1#frag''
     ''RootManageSharedAccessKey'' ''s3cret!'' (Val (Finite (3 / 2))) =
   Inr ''SharedAccessSignature sr=http%3A%2F%2Fcontoso.servicebus.windows.net%2Ffoo&sig=czNjcmV0IWh0dHAlM0ElMkYlMkZjb250b3NvLnNlcnZpY2VidXMud2luZG93cy5uZXQlMkZmb28KMTYwOTQ1OTIwMQ%3D%3D&se=1609459201&skn=RootManageSharedAccessKey''"
  by (simp add: createRelayToken_signedResource example_signedResource example_encoded
      fraction_unixSeconds fraction_expiry fraction_signature [simplified])

lemma fraction_se:
  "tokenSe ''SharedAccessSignature sr=http%3A%2F%2Fcontoso.servicebus.windows.net%2Ffoo&sig=czNjcmV0IWh0dHAlM0ElMkYlMkZjb250b3NvLnNlcnZpY2VidXMud2luZG93cy5uZXQlMkZmb28KMTYwOTQ1OTIwMQ%3D%3D&se=1609459201&skn=RootManageSharedAccessKey'' = Some ''1609459201''"
  by code_simp

lemma fraction_read: "readNumber ''1609459201'' = 1609459201"
  by (simp add: readNumber_def readNat_def digitVal_def)

subsection \<open>The claims about the token\<close>

lemma token_fields:
  assumes "tok = ''SharedAccessSignature sr='' @ encodeURIComponent r @ ''&sig=''
             @ encodeURIComponent s @ ''&se='' @ numberToString n @ ''&skn='' @ kn"
  shows "parseSasToken tok =
           Some (encodeURIComponent r, encodeURIComponent s, numberToString n, kn)"
  unfolding assms
  by (rule parseSasToken_fields)
     (rule amp_notin_encodeURIComponent amp_notin_encodeURIComponent amp_notin_numberToString)+

lemma createRelayToken_Inr:
  assumes "createRelayToken h w uri kn key e = Inr tok"
  obtains r where "signedResource uri = Inr r"
    and "tok = ''SharedAccessSignature sr='' @ encodeURIComponent r @ ''&sig=''
          @ encodeURIComponent (base64 (h key (encodeURIComponent r @ [CHR 0x0A]
              @ numberToString (expiry w e))))
          @ ''&se='' @ numberToString (expiry w e)
          @ ''&skn='' @ kn"
  using assms unfolding createRelayToken_signedResource
  by (cases "signedResource uri") auto

text \<open>
  C4. Whatever the input, \<^verbatim>\<open>createRelayToken\<close> either raises the error of the
  normalisation of \<open>uri\<close>, or returns a string of the form
  \<^verbatim>\<open>SharedAccessSignature sr=<r>&sig=<s>&se=<n>&skn=<keyName>\<close>, where \<open>r\<close> is the
  URI-encoded signed resource, \<open>s\<close> a URI-encoded signature and \<open>n\<close> the text of a number
  (a whole number in decimal, or \<^verbatim>\<open>NaN\<close>), and the key name is inserted as it is. The four fields stand in this order: read
  positionally, the token gives back exactly these four values.
\<close>

theorem createRelayToken_format:
  "case createRelayToken h w uri keyName key e of
     Inl err \<Rightarrow> signedResource uri = Inl err
   | Inr tok \<Rightarrow>
      (\<exists>r s n. signedResource uri = Inr r \<and>
         tok = ''SharedAccessSignature sr='' @ encodeURIComponent r @ ''&sig=''
                 @ encodeURIComponent s @ ''&se='' @ numberToString n @ ''&skn='' @ keyName \<and>
         tokenSr tok = Some (encodeURIComponent r) \<and>
         tokenSig tok = Some (encodeURIComponent s) \<and>
         tokenSe tok = Some (numberToString n) \<and>
         tokenSkn tok = Some keyName)"
proof (cases "createRelayToken h w uri keyName key e")
  case (Inl err)
  then have "signedResource uri = Inl err"
    unfolding createRelayToken_signedResource by (cases "signedResource uri") auto
  with Inl show ?thesis by simp
next
  case (Inr tok)
  then obtain r where r: "signedResource uri = Inr r"
    and tok: "tok = ''SharedAccessSignature sr='' @ encodeURIComponent r @ ''&sig=''
          @ encodeURIComponent (base64 (h key (encodeURIComponent r @ [CHR 0x0A]
              @ numberToString (expiry w e))))
          @ ''&se='' @ numberToString (expiry w e)
          @ ''&skn='' @ keyName"
    by (rule createRelayToken_Inr)
  from token_fields [OF tok] have
    "tokenSr tok = Some (encodeURIComponent r)"
    "tokenSig tok = Some (encodeURIComponent (base64 (h key (encodeURIComponent r @ [CHR 0x0A]
              @ numberToString (expiry w e)))))"
    "tokenSe tok = Some (numberToString (expiry w e))"
    "tokenSkn tok = Some keyName"
    by (simp_all add: tokenSr_def tokenSig_def tokenSe_def tokenSkn_def)
  with r tok have "\<exists>r s n. signedResource uri = Inr r \<and>
         tok = ''SharedAccessSignature sr='' @ encodeURIComponent r @ ''&sig=''
                 @ encodeURIComponent s @ ''&se='' @ numberToString n @ ''&skn='' @ keyName \<and>
         tokenSr tok = Some (encodeURIComponent r) \<and>
         tokenSig tok = Some (encodeURIComponent s) \<and>
         tokenSe tok = Some (numberToString n) \<and>
         tokenSkn tok = Some keyName"
    by blast
  with Inr show ?thesis by simp
qed

theorem createRelayToken_format_witness:
  "\<exists>r s n. signedResource ''https://contoso.servicebus.windows.net/$hc/foo?x=1#frag'' = Inr r \<and>
     
     ''SharedAccessSignature sr=http%3A%2F%2Fcontoso.servicebus.windows.net%2Ffoo&sig=czNjcmV0IWh0dHAlM0ElMkYlMkZjb250b3NvLnNlcnZpY2VidXMud2luZG93cy5uZXQlMkZmb28KMTYwOTQ1OTI2MA%3D%3D&se=1609459260&skn=RootManageSharedAccessKey'' = ''SharedAccessSignature sr='' @ encodeURIComponent r @ ''&sig=''
        @ encodeURIComponent s @ ''&se='' @ numberToString n
        @ ''&skn='' @ ''RootManageSharedAccessKey'' \<and>
     tokenSr 
     ''SharedAccessSignature sr=http%3A%2F%2Fcontoso.servicebus.windows.net%2Ffoo&sig=czNjcmV0IWh0dHAlM0ElMkYlMkZjb250b3NvLnNlcnZpY2VidXMud2luZG93cy5uZXQlMkZmb28KMTYwOTQ1OTI2MA%3D%3D&se=1609459260&skn=RootManageSharedAccessKey'' = Some (encodeURIComponent r) \<and>
     tokenSig 
     ''SharedAccessSignature sr=http%3A%2F%2Fcontoso.servicebus.windows.net%2Ffoo&sig=czNjcmV0IWh0dHAlM0ElMkYlMkZjb250b3NvLnNlcnZpY2VidXMud2luZG93cy5uZXQlMkZmb28KMTYwOTQ1OTI2MA%3D%3D&se=1609459260&skn=RootManageSharedAccessKey'' = Some (encodeURIComponent s) \<and>
     tokenSe 
     ''SharedAccessSignature sr=http%3A%2F%2Fcontoso.servicebus.windows.net%2Ffoo&sig=czNjcmV0IWh0dHAlM0ElMkYlMkZjb250b3NvLnNlcnZpY2VidXMud2luZG93cy5uZXQlMkZmb28KMTYwOTQ1OTI2MA%3D%3D&se=1609459260&skn=RootManageSharedAccessKey'' = Some (numberToString n) \<and>
     tokenSkn 
     ''SharedAccessSignature sr=http%3A%2F%2Fcontoso.servicebus.windows.net%2Ffoo&sig=czNjcmV0IWh0dHAlM0ElMkYlMkZjb250b3NvLnNlcnZpY2VidXMud2luZG93cy5uZXQlMkZmb28KMTYwOTQ1OTI2MA%3D%3D&se=1609459260&skn=RootManageSharedAccessKey'' = Some ''RootManageSharedAccessKey''"
  using createRelayToken_format [where h = "\<lambda>k m. k @ m"
      and w = "\<lparr>clock = 1609459200000, created = []\<rparr>"
      and uri = "''https://contoso.servicebus.windows.net/$hc/foo?x=1#frag''"
      and keyName = "''RootManageSharedAccessKey''" and key = "''s3cret!''"
      and e = "Val (Finite 60)"]
  unfolding example_token by simp

text \<open>
  C3, as the code has it. Let the clock be within the range of a \<^verbatim>\<open>Date\<close>, so that
  \<open>unix(now)\<close> is its whole seconds. When the argument is falsy (absent, null, zero or
  \<^verbatim>\<open>NaN\<close>) let \<open>n\<close> be 3600, and when it is a whole number other than zero let \<open>n\<close> be
  that number. If the date \<open>n\<close> seconds from now is within the range of a \<^verbatim>\<open>Date\<close>, the
  \<open>se\<close> field of a returned token is the decimal writing of \<open>unix(now) + n\<close>; read back as
  a number it is that sum.
\<close>

theorem createRelayToken_expiry:
  assumes "createRelayToken h w uri keyName key e = Inr tok"
    and "\<bar>clock w\<bar> \<le> 8640000000000000"
  shows "unix (moment w) = Some (clock w div 1000) \<and>
         (falsy e \<and> \<bar>clock w + 1000 * 3600\<bar> \<le> 8640000000000000 \<longrightarrow>
            tokenSe tok = Some (intToString (clock w div 1000 + 3600)) \<and>
            map_option readNumber (tokenSe tok) = Some (clock w div 1000 + 3600)) \<and>
         (\<forall>n. e = Val (Finite (of_int n)) \<and> n \<noteq> 0 \<and>
               \<bar>clock w + 1000 * n\<bar> \<le> 8640000000000000 \<longrightarrow>
               tokenSe tok = Some (intToString (clock w div 1000 + n)) \<and>
               map_option readNumber (tokenSe tok) = Some (clock w div 1000 + n))"
proof -
  from assms(1) obtain r where
    tok: "tok = ''SharedAccessSignature sr='' @ encodeURIComponent r @ ''&sig=''
          @ encodeURIComponent (base64 (h key (encodeURIComponent r @ [CHR 0x0A]
              @ numberToString (expiry w e))))
          @ ''&se='' @ numberToString (expiry w e)
          @ ''&skn='' @ keyName"
    by (rule createRelayToken_Inr)
  have se: "tokenSe tok = Some (numberToString (expiry w e))"
    using token_fields [OF tok] by (simp add: tokenSe_def)
  have whole: "tokenSe tok = Some (intToString (clock w div 1000 + n)) \<and>
      map_option readNumber (tokenSe tok) = Some (clock w div 1000 + n)"
    if "\<bar>clock w + 1000 * n\<bar> \<le> 8640000000000000"
      and "falsy e \<and> n = 3600 \<or> e = Val (Finite (of_int n)) \<and> n \<noteq> 0" for n
    unfolding se expiry_whole [OF assms(2) that]
    by (simp add: numberToString_def readNumber_intToString)
  show ?thesis
    using whole [of 3600] whole unix_moment [OF assms(2)] by blast
qed

theorem createRelayToken_expiry_witness:
  "tokenSe 
     ''SharedAccessSignature sr=http%3A%2F%2Fcontoso.servicebus.windows.net%2Ffoo&sig=czNjcmV0IWh0dHAlM0ElMkYlMkZjb250b3NvLnNlcnZpY2VidXMud2luZG93cy5uZXQlMkZmb28KMTYwOTQ1OTI2MA%3D%3D&se=1609459260&skn=RootManageSharedAccessKey'' = Some ''1609459260'' \<and>
   map_option readNumber (tokenSe 
     ''SharedAccessSignature sr=http%3A%2F%2Fcontoso.servicebus.windows.net%2Ffoo&sig=czNjcmV0IWh0dHAlM0ElMkYlMkZjb250b3NvLnNlcnZpY2VidXMud2luZG93cy5uZXQlMkZmb28KMTYwOTQ1OTI2MA%3D%3D&se=1609459260&skn=RootManageSharedAccessKey'') = Some 1609459260 \<and>
   tokenSe 
     ''SharedAccessSignature sr=http%3A%2F%2Fcontoso.servicebus.windows.net%2Ffoo&sig=czNjcmV0IWh0dHAlM0ElMkYlMkZjb250b3NvLnNlcnZpY2VidXMud2luZG93cy5uZXQlMkZmb28KMTYwOTQ2MjgwMA%3D%3D&se=1609462800&skn=RootManageSharedAccessKey'' = Some ''1609462800'' \<and>
   map_option readNumber (tokenSe 
     ''SharedAccessSignature sr=http%3A%2F%2Fcontoso.servicebus.windows.net%2Ffoo&sig=czNjcmV0IWh0dHAlM0ElMkYlMkZjb250b3NvLnNlcnZpY2VidXMud2luZG93cy5uZXQlMkZmb28KMTYwOTQ2MjgwMA%3D%3D&se=1609462800&skn=RootManageSharedAccessKey'') = Some 1609462800"
proof -
  have n: "intToString 1609459260 = ''1609459260''"
    by (simp add: intToString_def natToString.simps decimalDigit_def)
  have d: "intToString 1609462800 = ''1609462800''"
    by (simp add: intToString_def natToString.simps decimalDigit_def)
  from createRelayToken_expiry [OF example_token, THEN conjunct2, THEN conjunct2, THEN spec, of 60]
    createRelayToken_expiry [OF default_token, THEN conjunct2, THEN conjunct1]
  show ?thesis
    by (auto simp: n d)
qed

text \<open>
  C3 as it is written fails beyond the range and for a fraction. At the clock of the
  example, 8640000000000 seconds lead beyond the last date: the date is invalid and the
  token carries \<^verbatim>\<open>se=NaN\<close>, not the sum. For a second and a half the token carries the
  whole number 1609459201, not 1609459201.5.
\<close>

theorem createRelayToken_expiry_counterexample:
  "unix (moment \<lparr>clock = 1609459200000, created = []\<rparr>) = Some 1609459200 \<and>
   createRelayToken (\<lambda>k m. k @ m) \<lparr>clock = 1609459200000, created = []\<rparr>
     ''https://contoso.servicebus.windows.net/$hc/foo?x=1#frag''
     ''RootManageSharedAccessKey'' ''s3cret!'' (Val (Finite 8640000000000)) =
   Inr ''SharedAccessSignature sr=http%3A%2F%2Fcontoso.servicebus.windows.net%2Ffoo&sig=czNjcmV0IWh0dHAlM0ElMkYlMkZjb250b3NvLnNlcnZpY2VidXMud2luZG93cy5uZXQlMkZmb28KTmFO&se=NaN&skn=RootManageSharedAccessKey'' \<and>
   tokenSe ''SharedAccessSignature sr=http%3A%2F%2Fcontoso.servicebus.windows.net%2Ffoo&sig=czNjcmV0IWh0dHAlM0ElMkYlMkZjb250b3NvLnNlcnZpY2VidXMud2luZG93cy5uZXQlMkZmb28KTmFO&se=NaN&skn=RootManageSharedAccessKey'' = Some ''NaN'' \<and>
   ''NaN'' \<noteq> intToString (1609459200 + 8640000000000) \<and>
   createRelayToken (\<lambda>k m. k @ m) \<lparr>clock = 1609459200000, created = []\<rparr>
     ''https://contoso.servicebus.windows.net/$hc/foo?x=1#frag''
     ''RootManageSharedAccessKey'' ''s3cret!'' (Val (Finite (3 / 2))) =
   Inr ''SharedAccessSignature sr=http%3A%2F%2Fcontoso.servicebus.windows.net%2Ffoo&sig=czNjcmV0IWh0dHAlM0ElMkYlMkZjb250b3NvLnNlcnZpY2VidXMud2luZG93cy5uZXQlMkZmb28KMTYwOTQ1OTIwMQ%3D%3D&se=1609459201&skn=RootManageSharedAccessKey'' \<and>
   tokenSe ''SharedAccessSignature sr=http%3A%2F%2Fcontoso.servicebus.windows.net%2Ffoo&sig=czNjcmV0IWh0dHAlM0ElMkYlMkZjb250b3NvLnNlcnZpY2VidXMud2luZG93cy5uZXQlMkZmb28KMTYwOTQ1OTIwMQ%3D%3D&se=1609459201&skn=RootManageSharedAccessKey'' = Some ''1609459201'' \<and>
   (of_int (readNumber ''1609459201'') :: rat) \<noteq> 1609459200 + 3 / 2"
  by (simp add: beyond_token beyond_se beyond_sum fraction_token fraction_se fraction_read
      moment_def timeClip_def unix_def)

text \<open>
  C2. In a returned token the \<open>sig\<close> field is the URI encoding of the base64 encoding of
  the HMAC, keyed by \<open>key\<close>, of the \<open>sr\<close> field as it stands in the token (the URI-encoded
  signed resource), a line feed and the \<open>se\<close> field; and the check of the signature
  succeeds: decoding \<open>sr\<close> and \<open>sig\<close>, the HMAC recomputed from the encoded resource, a line
  feed and \<open>se\<close> is the base64 decoding of the signature.
\<close>

theorem createRelayToken_signature:
  assumes "createRelayToken h w uri keyName key e = Inr tok"
  shows "verifySignature h key tok \<and>
         (\<exists>r sr se. signedResource uri = Inr r \<and> sr = encodeURIComponent r \<and>
            tokenSr tok = Some sr \<and> tokenSe tok = Some se \<and>
            tokenSig tok = Some (encodeURIComponent (base64 (h key (sr @ [CHR 0x0A] @ se)))))"
proof -
  define n where "n = expiry w e"
  define s where "s r = base64 (h key (encodeURIComponent r @ [CHR 0x0A] @ numberToString n))" for r
  from assms obtain r where r: "signedResource uri = Inr r"
    and tok: "tok = ''SharedAccessSignature sr='' @ encodeURIComponent r @ ''&sig=''
          @ encodeURIComponent (s r) @ ''&se='' @ numberToString n @ ''&skn='' @ keyName"
    unfolding s_def n_def by (rule createRelayToken_Inr)
  note f = token_fields [OF tok]
  have "verifySignature h key tok"
    unfolding verifySignature_def f
    by (simp add: percentDecode_encodeURIComponent base64Decode_base64 s_def)
  moreover have "tokenSr tok = Some (encodeURIComponent r)" "tokenSe tok = Some (numberToString n)"
    "tokenSig tok = Some (encodeURIComponent
        (base64 (h key (encodeURIComponent r @ [CHR 0x0A] @ numberToString n))))"
    using f by (simp_all add: tokenSr_def tokenSe_def tokenSig_def s_def)
  ultimately show ?thesis
    using r by blast
qed

theorem createRelayToken_signature_witness:
  "verifySignature (\<lambda>k m. k @ m) ''s3cret!'' 
     ''SharedAccessSignature sr=http%3A%2F%2Fcontoso.servicebus.windows.net%2Ffoo&sig=czNjcmV0IWh0dHAlM0ElMkYlMkZjb250b3NvLnNlcnZpY2VidXMud2luZG93cy5uZXQlMkZmb28KMTYwOTQ1OTI2MA%3D%3D&se=1609459260&skn=RootManageSharedAccessKey''"
  using createRelayToken_signature [OF example_token] by simp



section \<open>Properties of appendRelayToken\<close>

lemma searchOf_Some:
  assumes "searchOf rest = Some q"
  shows "q \<noteq> [] \<and> hd q = CHR ''?'' \<and> CHR ''#'' \<notin> set q"
proof -
  let ?r = "takeWhile (\<lambda>c. c \<noteq> CHR ''#'') rest"
  from assms have in_r: "CHR ''?'' \<in> set ?r" and q: "q = dropWhile (\<lambda>c. c \<noteq> CHR ''?'') ?r"
    by (auto simp: searchOf_def Let_def split: if_splits)
  from in_r have ne: "q \<noteq> []"
    unfolding q by auto
  from hd_dropWhile [of "\<lambda>c. c \<noteq> CHR ''?''" ?r] ne have "hd q = CHR ''?''"
    unfolding q by simp
  moreover have "CHR ''#'' \<notin> set q"
    unfolding q by (auto dest: set_dropWhileD set_takeWhileD)
  ultimately show ?thesis
    using ne by simp
qed

lemma hashOf_Some:
  assumes "hashOf rest = Some hs"
  shows "hs \<noteq> [] \<and> hd hs = CHR ''#''"
proof -
  from assms have in_r: "CHR ''#'' \<in> set rest" and hs: "hs = dropWhile (\<lambda>c. c \<noteq> CHR ''#'') rest"
    by (auto simp: hashOf_def split: if_splits)
  from in_r have ne: "hs \<noteq> []"
    unfolding hs by auto
  from hd_dropWhile [of "\<lambda>c. c \<noteq> CHR ''#''" rest] ne show ?thesis
    unfolding hs by simp
qed

lemma parseTail_search: "search (parseTail proto sl au ho po hn rest) =
    searchOf (if unsafeProtocol (orEmpty proto) then rest else autoEscapeStr rest)"
  by (simp add: parseTail_def Let_def)

lemma parseTail_hash: "hash (parseTail proto sl au ho po hn rest) =
    hashOf (if unsafeProtocol (orEmpty proto) then rest else autoEscapeStr rest)"
  by (simp add: parseTail_def Let_def)

lemma parseAuthority_Inr:
  assumes "parseAuthority proto sl rest = Inr u"
  shows "\<exists>au ho po hn r. u = parseTail proto sl au ho po hn r"
proof (cases "hostScan rest 0 None None")
  case (Pair atSign nonHost)
  show ?thesis
  proof (cases "case atSign of None \<Rightarrow> Inr None
                | Some a \<Rightarrow> map_sum (\<lambda>e. e) Some (decodeURIComponent (take a rest))")
    case (Inl e)
    with assms Pair show ?thesis
      by (simp add: parseAuthority_def)
  next
    case (Inr au)
    with assms Pair have "\<exists>ho po hn r. u = parseTail proto sl au ho po hn r"
      unfolding parseAuthority_def Let_def by (simp split del: if_split) blast
    then show ?thesis ..
  qed
qed

lemma url_parse_cases:
  assumes "url_parse uri = Inr u"
  shows "(\<exists>r. search u = searchOf r \<and> hash u = hashOf r)"
proof -
  let ?rest = "convertBackslashes (trimWs uri)"
  show ?thesis
  proof (cases "\<not> hasHash ?rest \<and> \<not> hasAt ?rest \<and> simplePath ?rest")
    case True
    then have "CHR ''#'' \<notin> set ?rest"
      by (simp add: hasHash_def)
    then have "hashOf ?rest = None"
      by (simp add: hashOf_def)
    with True assms show ?thesis
      by (auto simp: url_parse_def Let_def)
  next
    case False
    with assms have "(\<exists>proto sl rest. parseAuthority proto sl rest = Inr u) \<or>
        (\<exists>proto sl rest. u = parseTail proto sl None None None None rest)"
      unfolding url_parse_def Let_def by (simp split: if_splits split del: if_split) blast+
    then obtain proto sl au ho po hn r where "u = parseTail proto sl au ho po hn r"
      using parseAuthority_Inr by blast
    then show ?thesis
      using parseTail_search parseTail_hash by blast
  qed
qed

lemma url_parse_search:
  assumes "url_parse uri = Inr u" and "search u = Some q"
  shows "q \<noteq> [] \<and> hd q = CHR ''?'' \<and> CHR ''#'' \<notin> set q"
  using url_parse_cases [OF assms(1)] assms(2) searchOf_Some by metis

lemma url_parse_hash:
  assumes "url_parse uri = Inr u" and "hash u = Some hs"
  shows "hs \<noteq> [] \<and> hd hs = CHR ''#''"
  using url_parse_cases [OF assms(1)] assms(2) hashOf_Some by metis

lemma hash_notin_encodeURIComponent: "CHR ''#'' \<notin> set (encodeURIComponent s)"
proof (induction s)
  case Nil
  show ?case by (simp add: encodeURIComponent_def)
next
  case (Cons c s)
  have "\<not> uriUnescaped (CHR ''#'')"
    by (simp add: uriUnescaped_def isAlnum_def)
  then have "CHR ''#'' \<notin> set (if uriUnescaped c then [c] else pctEncode c)"
    using set_pctEncode [of c] by auto
  with Cons show ?case
    by (simp add: encodeURIComponent_Cons)
qed

lemma escapeHash_id: "CHR ''#'' \<notin> set s \<Longrightarrow> escapeHash s = s"
  by (induction s) (auto simp: escapeHash_def)

text \<open>
  What \<^verbatim>\<open>url.format\<close> writes ends with the search and the hash, when the search starts
  with a question mark and holds no \<^verbatim>\<open>#\<close>, and the hash is empty or starts with \<^verbatim>\<open>#\<close>.
\<close>

lemma url_format_search_hash:
  assumes "search u = Some q" and "q \<noteq> []" and "hd q = CHR ''?''" and "CHR ''#'' \<notin> set q"
    and "orEmpty (hash u) = [] \<or> hd (orEmpty (hash u)) = CHR ''#''"
  shows "url_format u =
           url_format (u\<lparr>search := None, hash := None\<rparr>) @ q @ orEmpty (hash u)"
proof -
  have 1: "orEmpty (search u) = q"
    using assms(1) by (simp add: orEmpty_def)
  have 2: "escapeHash q = q"
    using assms(4) by (rule escapeHash_id)
  have 3: "orEmpty None = []" "escapeHash [] = []"
    by (simp_all add: orEmpty_def escapeHash_def)
  show ?thesis
    using assms(2,3,5) by (auto simp: url_format_def Let_def 1 2 3)
qed

lemma signedResource_Inr:
  assumes "url_parse uri = Inr u" and "pathname u = Some pn"
  shows "\<exists>r. signedResource uri = Inr r"
  using assms by (simp add: signedResource_def)

text \<open>
  C7 (as amended). When \<open>uri\<close> parses with a query string and a path name,
  \<^verbatim>\<open>appendRelayToken\<close> returns the re-serialised URI with \<^verbatim>\<open>&sb-hc-token=\<close> and the
  URI-encoded token put at the end of its query string, before the fragment if there is
  one; the token is the one \<^verbatim>\<open>createRelayToken\<close> returns on the same arguments, and the
  scheme, host and path are those of the re-serialised URI.
\<close>

theorem appendRelayToken_appends:
  assumes "url_parse uri = Inr u" and "search u = Some q" and "pathname u = Some pn"
  shows "\<exists>tok. createRelayToken h w uri keyName key e = Inr tok \<and>
           appendRelayToken h w uri keyName key e =
             Inr (url_format (u\<lparr>search := None, hash := None\<rparr>) @ q
                  @ ''&sb-hc-token='' @ encodeURIComponent tok @ orEmpty (hash u)) \<and>
           url_format u = url_format (u\<lparr>search := None, hash := None\<rparr>) @ q @ orEmpty (hash u)"
proof -
  from signedResource_Inr [OF assms(1) assms(3)] obtain r where "signedResource uri = Inr r" ..
  then obtain tok where tok: "createRelayToken h w uri keyName key e = Inr tok"
    by (simp add: createRelayToken_signedResource)
  note q = url_parse_search [OF assms(1) assms(2)]
  have hs: "orEmpty (hash u) = [] \<or> hd (orEmpty (hash u)) = CHR ''#''"
    using url_parse_hash [OF assms(1)] by (cases "hash u") (simp_all add: orEmpty_def)
  let ?q' = "q @ ''&sb-hc-token='' @ encodeURIComponent tok"
  let ?u' = "u\<lparr>search := Some ?q'\<rparr>"
  have "url_format ?u' =
          url_format (?u'\<lparr>search := None, hash := None\<rparr>) @ ?q' @ orEmpty (hash ?u')"
  proof (rule url_format_search_hash)
    show "search ?u' = Some ?q'" by simp
    show "?q' \<noteq> []" using q by simp
    show "hd ?q' = CHR ''?''" using q by simp
    show "CHR ''#'' \<notin> set ?q'" using q hash_notin_encodeURIComponent [of tok] by simp
    show "orEmpty (hash ?u') = [] \<or> hd (orEmpty (hash ?u')) = CHR ''#''" using hs by simp
  qed
  then have a: "appendRelayToken h w uri keyName key e =
      Inr (url_format (u\<lparr>search := None, hash := None\<rparr>) @ q
           @ ''&sb-hc-token='' @ encodeURIComponent tok @ orEmpty (hash u))"
    by (simp add: appendRelayToken_def tok assms(1) assms(2))
  have "url_format u = url_format (u\<lparr>search := None, hash := None\<rparr>) @ q @ orEmpty (hash u)"
    using assms(2) q hs by (intro url_format_search_hash) simp_all
  with tok a show ?thesis by blast
qed

subsection \<open>The listen URI of a relay, with a token appended\<close>

lemma listen_parse:
  "url_parse ''wss://contoso.servicebus.windows.net:443/$hc/foo?sb-hc-action=listen'' = Inr \<lparr>protocol = Some ''wss:'', slashes = True, auth = None,
        host = Some ''contoso.servicebus.windows.net:443'', port = Some ''443'',
        hostname = Some ''contoso.servicebus.windows.net'', hash = None,
        search = Some ''?sb-hc-action=listen'', pathname = Some ''/$hc/foo''\<rparr>"
  by code_simp

lemma listen_base:
  "url_format (\<lparr>protocol = Some ''wss:'', slashes = True, auth = None,
        host = Some ''contoso.servicebus.windows.net:443'', port = Some ''443'',
        hostname = Some ''contoso.servicebus.windows.net'', hash = None,
        search = Some ''?sb-hc-action=listen'', pathname = Some ''/$hc/foo''\<rparr>\<lparr>search := None, hash := None\<rparr>) =
     ''wss://contoso.servicebus.windows.net:443/$hc/foo''"
  by code_simp

lemma listen_signedResource:
  "signedResource ''wss://contoso.servicebus.windows.net:443/$hc/foo?sb-hc-action=listen'' = Inr ''http://contoso.servicebus.windows.net:443/foo''"
  by code_simp

lemma listen_encoded:
  "encodeURIComponent ''http://contoso.servicebus.windows.net:443/foo'' =
     ''http%3A%2F%2Fcontoso.servicebus.windows.net%3A443%2Ffoo''"
  by code_simp

lemma listen_signature:
  "encodeURIComponent (base64 (''s3cret!'' @
      ''http%3A%2F%2Fcontoso.servicebus.windows.net%3A443%2Ffoo'' @ [CHR 0x0A] @ ''1609462800'')) =
     ''czNjcmV0IWh0dHAlM0ElMkYlMkZjb250b3NvLnNlcnZpY2VidXMud2luZG93cy5uZXQlM0E0NDMlMkZmb28KMTYwOTQ2MjgwMA%3D%3D''"
  by code_simp

lemma listen_token:
  "createRelayToken (\<lambda>k m. k @ m) \<lparr>clock = 1609459200000, created = []\<rparr>
     ''wss://contoso.servicebus.windows.net:443/$hc/foo?sb-hc-action=listen''
     ''RootManageSharedAccessKey'' ''s3cret!'' Undefined =
   Inr 
     ''SharedAccessSignature sr=http%3A%2F%2Fcontoso.servicebus.windows.net%3A443%2Ffoo&sig=czNjcmV0IWh0dHAlM0ElMkYlMkZjb250b3NvLnNlcnZpY2VidXMud2luZG93cy5uZXQlM0E0NDMlMkZmb28KMTYwOTQ2MjgwMA%3D%3D&se=1609462800&skn=RootManageSharedAccessKey''"
  by (simp add: createRelayToken_signedResource listen_signedResource listen_encoded
      default_unixSeconds default_expiry listen_signature [simplified])

lemma listen_token_encoded:
  "encodeURIComponent 
     ''SharedAccessSignature sr=http%3A%2F%2Fcontoso.servicebus.windows.net%3A443%2Ffoo&sig=czNjcmV0IWh0dHAlM0ElMkYlMkZjb250b3NvLnNlcnZpY2VidXMud2luZG93cy5uZXQlM0E0NDMlMkZmb28KMTYwOTQ2MjgwMA%3D%3D&se=1609462800&skn=RootManageSharedAccessKey'' =
     
     ''SharedAccessSignature%20sr%3Dhttp%253A%252F%252Fcontoso.servicebus.windows.net%253A443%252Ffoo%26sig%3DczNjcmV0IWh0dHAlM0ElMkYlMkZjb250b3NvLnNlcnZpY2VidXMud2luZG93cy5uZXQlM0E0NDMlMkZmb28KMTYwOTQ2MjgwMA%253D%253D%26se%3D1609462800%26skn%3DRootManageSharedAccessKey''"
  by code_simp

theorem appendRelayToken_appends_witness:
  "url_parse ''wss://contoso.servicebus.windows.net:443/$hc/foo?sb-hc-action=listen'' = Inr \<lparr>protocol = Some ''wss:'', slashes = True, auth = None,
        host = Some ''contoso.servicebus.windows.net:443'', port = Some ''443'',
        hostname = Some ''contoso.servicebus.windows.net'', hash = None,
        search = Some ''?sb-hc-action=listen'', pathname = Some ''/$hc/foo''\<rparr> \<and>
   search \<lparr>protocol = Some ''wss:'', slashes = True, auth = None,
        host = Some ''contoso.servicebus.windows.net:443'', port = Some ''443'',
        hostname = Some ''contoso.servicebus.windows.net'', hash = None,
        search = Some ''?sb-hc-action=listen'', pathname = Some ''/$hc/foo''\<rparr> = Some ''?sb-hc-action=listen'' \<and>
   pathname \<lparr>protocol = Some ''wss:'', slashes = True, auth = None,
        host = Some ''contoso.servicebus.windows.net:443'', port = Some ''443'',
        hostname = Some ''contoso.servicebus.windows.net'', hash = None,
        search = Some ''?sb-hc-action=listen'', pathname = Some ''/$hc/foo''\<rparr> = Some ''/$hc/foo'' \<and>
   appendRelayToken (\<lambda>k m. k @ m) \<lparr>clock = 1609459200000, created = []\<rparr>
     ''wss://contoso.servicebus.windows.net:443/$hc/foo?sb-hc-action=listen''
     ''RootManageSharedAccessKey'' ''s3cret!'' Undefined =
   Inr 
     ''wss://contoso.servicebus.windows.net:443/$hc/foo?sb-hc-action=listen&sb-hc-token=SharedAccessSignature%20sr%3Dhttp%253A%252F%252Fcontoso.servicebus.windows.net%253A443%252Ffoo%26sig%3DczNjcmV0IWh0dHAlM0ElMkYlMkZjb250b3NvLnNlcnZpY2VidXMud2luZG93cy5uZXQlM0E0NDMlMkZmb28KMTYwOTQ2MjgwMA%253D%253D%26se%3D1609462800%26skn%3DRootManageSharedAccessKey''"
proof -
  from appendRelayToken_appends [OF listen_parse, of "''?sb-hc-action=listen''" "''/$hc/foo''"
      "\<lambda>k m. k @ m" "\<lparr>clock = 1609459200000, created = []\<rparr>"
      "''RootManageSharedAccessKey''" "''s3cret!''" Undefined]
  have "appendRelayToken (\<lambda>k m. k @ m) \<lparr>clock = 1609459200000, created = []\<rparr>
     ''wss://contoso.servicebus.windows.net:443/$hc/foo?sb-hc-action=listen''
          ''RootManageSharedAccessKey'' ''s3cret!'' Undefined =
        Inr (''wss://contoso.servicebus.windows.net:443/$hc/foo'' @ ''?sb-hc-action=listen''
             @ ''&sb-hc-token='' @ 
     ''SharedAccessSignature%20sr%3Dhttp%253A%252F%252Fcontoso.servicebus.windows.net%253A443%252Ffoo%26sig%3DczNjcmV0IWh0dHAlM0ElMkYlMkZjb250b3NvLnNlcnZpY2VidXMud2luZG93cy5uZXQlM0E0NDMlMkZmb28KMTYwOTQ2MjgwMA%253D%253D%26se%3D1609462800%26skn%3DRootManageSharedAccessKey'')"
    unfolding listen_token listen_base by (simp add: listen_token_encoded orEmpty_def)
  then show ?thesis
    by (simp add: listen_parse)
qed

text \<open>
  C7 as it is written fails for a URI with a query string and no path: its path name is
  \<open>null\<close>, and \<^verbatim>\<open>createRelayToken\<close> raises \<open>TypeError\<close>.
\<close>

lemma no_path_parse:
  "url_parse ''?x=1'' = Inr \<lparr>protocol = None, slashes = False, auth = None, host = None,
     port = None, hostname = None, hash = None, search = Some ''?x=1'', pathname = None\<rparr>"
  by code_simp

theorem appendRelayToken_counterexample:
  "appendRelayToken (\<lambda>k m. k @ m) \<lparr>clock = 1609459200000, created = []\<rparr>
     ''?x=1'' ''RootManageSharedAccessKey''
     ''s3cret!'' Undefined = Inl TypeError"
  by (simp add: appendRelayToken_def createRelayToken_def no_path_parse)

section \<open>The signed resource\<close>

text \<open>
  C1, at its example and at an input where the code departs from it. The example of the
  specification gives the signed resource it names. A URI with a port keeps the port in
  the signed resource: \<^verbatim>\<open>parsedUrl.port = null\<close> has no effect on \<^verbatim>\<open>url.format\<close>, which
  writes the \<open>host\<close> field, and \<open>host\<close> still holds the port.
\<close>

theorem signedResource_keeps_port:
  "signedResource ''https://contoso.servicebus.windows.net/$hc/foo?x=1#frag'' =
     Inr ''http://contoso.servicebus.windows.net/foo'' \<and>
   signedResource ''wss://contoso.servicebus.windows.net:443/$hc/foo?sb-hc-action=listen'' =
     Inr ''http://contoso.servicebus.windows.net:443/foo'' \<and>
   (\<exists>tok. createRelayToken h w ''wss://contoso.servicebus.windows.net:443/$hc/foo?sb-hc-action=listen'' keyName key e = Inr tok \<and>
      Option.bind (tokenSr tok) percentDecode =
        Some ''http://contoso.servicebus.windows.net:443/foo'')"
proof -
  have "\<exists>tok. createRelayToken h w ''wss://contoso.servicebus.windows.net:443/$hc/foo?sb-hc-action=listen'' keyName key e = Inr tok \<and>
      Option.bind (tokenSr tok) percentDecode =
        Some ''http://contoso.servicebus.windows.net:443/foo''"
  proof -
    obtain tok where tok: "createRelayToken h w ''wss://contoso.servicebus.windows.net:443/$hc/foo?sb-hc-action=listen'' keyName key e = Inr tok"
      by (simp add: createRelayToken_signedResource listen_signedResource)
    from createRelayToken_Inr [OF tok] obtain r s n where
      r: "signedResource ''wss://contoso.servicebus.windows.net:443/$hc/foo?sb-hc-action=listen'' = Inr r"
      and t: "tok = ''SharedAccessSignature sr='' @ encodeURIComponent r @ ''&sig=''
                @ encodeURIComponent s @ ''&se='' @ numberToString n @ ''&skn='' @ keyName"
      by blast
    have f: "tokenSr tok = Some (encodeURIComponent r)"
      using token_fields [OF t] by (simp add: tokenSr_def)
    from r have "r = ''http://contoso.servicebus.windows.net:443/foo''"
      by (simp add: listen_signedResource)
    with f tok show ?thesis
      by (simp add: percentDecode_encodeURIComponent)
  qed
  then show ?thesis
    by (simp add: example_signedResource listen_signedResource)
qed

end
